theory Spec2Isabelle
  imports Complex_Main "HOL-Library.Sublist"
begin

text \<open>
  A shallow embedding of the decision logic of the document ingestion service: the
  status, progress and retry eligibility derived from the processing log
  (\<^verbatim>\<open>status_handler.py\<close>, \<^verbatim>\<open>retry_handler.py\<close>), the validation result and the four
  validation passes (\<^verbatim>\<open>validator.py\<close>), the review flag of the confidence scorer
  (\<^verbatim>\<open>confidence_scorer.py\<close>) and the parser of financial numbers
  (\<^verbatim>\<open>number_parser.py\<close>). The definitions come first, the properties after them.
\<close>

section \<open>Processing logs and the status handler\<close>

text \<open>
  A processing log entry as the handlers read it: the event type, the timestamp and the
  payload. The payload field of the source model is \<^verbatim>\<open>Optional[Dict[str, Any]]\<close>:
  \<open>None\<close> is a stored null, \<open>Some m\<close> a dictionary (a missing key reads as the empty
  dictionary through \<^verbatim>\<open>log.get("event_data", {})\<close>).
\<close>

record processing_log =
  event_type :: string
  event_timestamp :: string
  event_data :: "(string \<rightharpoonup> string) option"

record progress_info =
  current_stage :: string
  stages_completed :: "string list"
  completion_percentage :: nat

record timestamps_info =
  uploaded_at :: "string option"
  started_processing_at :: "string option"
  completed_at :: "string option"

record status_info =
  document_id :: string
  status :: string
  progress :: progress_info
  timestamps :: timestamps_info

text \<open>Python truthiness of an optional string: \<open>None\<close> and the empty string are falsy.\<close>

fun truthy :: "string option \<Rightarrow> bool" where
  "truthy None = False"
| "truthy (Some s) = (s \<noteq> [])"

definition stages :: "(string \<times> string list) list" where
  "stages =
    [(''upload'', [''queued'']),
     (''ingestion'', [''ingestion_started'']),
     (''extraction'', [''extraction_started'', ''extraction_completed'']),
     (''validation'', [''validation_started'', ''validation_completed''])]"

text \<open>
  The loop of \<^verbatim>\<open>_calculate_progress\<close> over the stages, carrying
  \<^verbatim>\<open>completed_stages\<close> and \<^verbatim>\<open>current_stage\<close>.
\<close>

fun progress_loop ::
  "string set \<Rightarrow> (string \<times> string list) list \<Rightarrow> string list \<times> string option
    \<Rightarrow> string list \<times> string option" where
  "progress_loop events [] acc = acc"
| "progress_loop events ((stage_name, stage_events) # rest) (completed, cur) =
    (if list_ex (\<lambda>event. event \<in> events) stage_events
     then progress_loop events rest (completed @ [stage_name], Some stage_name)
     else progress_loop events rest (completed, cur))"

text \<open>
  \<^verbatim>\<open>int((len(completed_stages) / total_stages) * 100)\<close>: with four stages the quotient
  is one of 0, 0.25, 0.5, 0.75, 1, all exact in binary floating point, so the result is
  the integer quotient written here.
\<close>

definition calculate_progress :: "string set \<Rightarrow> progress_info" where
  "calculate_progress events =
    (case progress_loop events stages ([], None) of
      (completed, cur) \<Rightarrow>
        \<lparr> current_stage = (if truthy cur then the cur else ''queued''),
          stages_completed = completed,
          completion_percentage = (length completed * 100) div length stages \<rparr>)"

text \<open>
  The loop of \<^verbatim>\<open>_extract_timestamps\<close>, run over the reversed list (oldest first).
\<close>

fun timestamps_loop :: "processing_log list \<Rightarrow> timestamps_info \<Rightarrow> timestamps_info" where
  "timestamps_loop [] ts = ts"
| "timestamps_loop (entry # rest) ts =
    (let ts1 = (if event_type entry \<in> set [''queued'', ''ingestion_started'']
                   \<and> \<not> truthy (uploaded_at ts)
                then ts\<lparr>uploaded_at := Some (event_timestamp entry)\<rparr> else ts);
         ts2 = (if event_type entry = ''extraction_started''
                   \<and> \<not> truthy (started_processing_at ts1)
                then ts1\<lparr>started_processing_at := Some (event_timestamp entry)\<rparr> else ts1);
         ts3 = (if event_type entry = ''validation_completed''
                then ts2\<lparr>completed_at := Some (event_timestamp entry)\<rparr> else ts2)
     in timestamps_loop rest ts3)"

definition extract_timestamps :: "processing_log list \<Rightarrow> timestamps_info" where
  "extract_timestamps processing_logs =
    timestamps_loop (rev processing_logs)
      \<lparr> uploaded_at = None, started_processing_at = None, completed_at = None \<rparr>"

definition determine_status_from_logs :: "processing_log list \<Rightarrow> string \<Rightarrow> status_info" where
  "determine_status_from_logs processing_logs doc_id =
    (let all_events = set (map event_type processing_logs);
         st = (if ''failed'' \<in> all_events then ''failed''
               else if ''validation_completed'' \<in> all_events then ''completed''
               else if ''validation_started'' \<in> all_events
                       \<or> ''extraction_started'' \<in> all_events then ''processing''
               else if ''queued'' \<in> all_events
                       \<or> ''ingestion_started'' \<in> all_events then ''queued''
               else ''unknown'')
     in \<lparr> document_id = doc_id, status = st,
          progress = calculate_progress all_events,
          timestamps = extract_timestamps processing_logs \<rparr>)"


section \<open>Floating-point numbers\<close>

text \<open>
  A Python float is an IEEE 754 double: a finite value, an infinity or NaN. The finite
  values are modelled by the real numbers they denote (the two zeros are one value);
  every arithmetic operation computes the exact result and rounds it to the nearest
  double, ties to even, and to an infinity beyond the largest double.
\<close>

datatype pyfloat = Fin real | PInf | NInf | NaN

text \<open>Rounding to the nearest integer, ties to the even one.\<close>

definition round_half_even :: "real \<Rightarrow> int" where
  "round_half_even y =
    (let f = \<lfloor>y\<rfloor>; r = y - of_int f
     in if r < 1 / 2 then f else if r > 1 / 2 then f + 1 else if even f then f else f + 1)"

text \<open>
  The binary exponent of a positive number \<open>x\<close>, the \<open>e\<close> with \<open>2 ^ e \<le> x < 2 ^ (e + 1)\<close>:
  the number of halvings that bring \<open>x\<close> below 2, or minus the number of doublings that
  bring it to 1.
\<close>

function halvings :: "real \<Rightarrow> nat" where
  "halvings x = (if x < 2 then 0 else Suc (halvings (x / 2)))"
  by pat_completeness auto
termination
proof (relation "measure (\<lambda>x. nat \<lfloor>x\<rfloor>)")
  show "wf (measure (\<lambda>x :: real. nat \<lfloor>x\<rfloor>))" by simp
next
  fix x :: real
  assume "\<not> x < 2"
  then have "x / 2 \<le> x - 1" by simp
  then have "\<lfloor>x / 2\<rfloor> \<le> \<lfloor>x - 1\<rfloor>" by (rule floor_mono)
  moreover have "0 < \<lfloor>x\<rfloor>" using \<open>\<not> x < 2\<close> by linarith
  ultimately show "(x / 2, x) \<in> measure (\<lambda>x. nat \<lfloor>x\<rfloor>)" by simp
qed

declare halvings.simps [simp del]

function doublings :: "real \<Rightarrow> nat" where
  "doublings x = (if 1 \<le> x \<or> x \<le> 0 then 0 else Suc (doublings (2 * x)))"
  by pat_completeness auto
termination
proof (relation "measure (\<lambda>x. nat \<lceil>1 / x\<rceil>)")
  show "wf (measure (\<lambda>x :: real. nat \<lceil>1 / x\<rceil>))" by simp
next
  fix x :: real
  assume a: "\<not> (1 \<le> x \<or> x \<le> 0)"
  then have x: "0 < x" "x < 1" by simp_all
  then have y: "1 < 1 / x" by simp
  then have c: "2 \<le> \<lceil>1 / x\<rceil>" by linarith
  have "1 / x \<le> of_int \<lceil>1 / x\<rceil>" by (rule le_of_int_ceiling)
  then have "1 / (2 * x) \<le> of_int \<lceil>1 / x\<rceil> / 2" by simp
  also have "\<dots> \<le> of_int (\<lceil>1 / x\<rceil> - 1)" using c by simp
  finally have "\<lceil>1 / (2 * x)\<rceil> \<le> \<lceil>1 / x\<rceil> - 1" by (rule ceiling_le)
  with c x show "(2 * x, x) \<in> measure (\<lambda>x. nat \<lceil>1 / x\<rceil>)" by simp
qed

declare doublings.simps [simp del]

definition exponent :: "real \<Rightarrow> int" where
  "exponent x = (if 1 \<le> x then int (halvings x) else - int (doublings x))"

definition pow2 :: "int \<Rightarrow> real" where
  "pow2 e = (if 0 \<le> e then 2 ^ nat e else 1 / 2 ^ nat (- e))"

text \<open>
  The nearest double of a real number, overflow aside: the spacing of the doubles
  around \<open>x\<close> is \<open>2 ^ (e - 52)\<close>, with the exponent held at \<open>-1022\<close> in the subnormal
  range. \<open>double\<close> adds the overflow.
\<close>

definition fl :: "real \<Rightarrow> real" where
  "fl x =
    (if x = 0 then 0
     else (let u = pow2 (max (exponent \<bar>x\<bar>) (- 1022) - 52)
           in of_int (round_half_even (x / u)) * u))"

definition double :: "real \<Rightarrow> pyfloat" where
  "double x =
    (let r = fl x
     in if \<bar>r\<bar> \<ge> 2 ^ 1024 then (if x > 0 then PInf else NInf) else Fin r)"

fun fneg :: "pyfloat \<Rightarrow> pyfloat" where
  "fneg (Fin x) = Fin (- x)"
| "fneg PInf = NInf"
| "fneg NInf = PInf"
| "fneg NaN = NaN"

fun fabs :: "pyfloat \<Rightarrow> pyfloat" where
  "fabs (Fin x) = Fin \<bar>x\<bar>"
| "fabs PInf = PInf"
| "fabs NInf = PInf"
| "fabs NaN = NaN"

text \<open>The product of a float and a finite float \<open>m\<close>.\<close>

fun fmul :: "pyfloat \<Rightarrow> real \<Rightarrow> pyfloat" where
  "fmul (Fin x) m = double (x * m)"
| "fmul PInf m = (if m > 0 then PInf else if m < 0 then NInf else NaN)"
| "fmul NInf m = (if m > 0 then NInf else if m < 0 then PInf else NaN)"
| "fmul NaN m = NaN"

fun fsub :: "pyfloat \<Rightarrow> pyfloat \<Rightarrow> pyfloat" where
  "fsub (Fin x) (Fin y) = double (x - y)"
| "fsub NaN b = NaN"
| "fsub a NaN = NaN"
| "fsub PInf PInf = NaN"
| "fsub NInf NInf = NaN"
| "fsub PInf b = PInf"
| "fsub NInf b = NInf"
| "fsub (Fin x) PInf = NInf"
| "fsub (Fin x) NInf = PInf"

text \<open>\<^verbatim>\<open>a > b\<close> on floats (false whenever NaN is involved), and \<^verbatim>\<open>max(a, b)\<close>, which
  keeps \<open>a\<close> unless \<open>b > a\<close>.\<close>

fun fgt :: "pyfloat \<Rightarrow> pyfloat \<Rightarrow> bool" where
  "fgt (Fin x) (Fin y) = (x > y)"
| "fgt NaN b = False"
| "fgt a NaN = False"
| "fgt PInf PInf = False"
| "fgt PInf b = True"
| "fgt NInf b = False"
| "fgt (Fin x) PInf = False"
| "fgt (Fin x) NInf = True"

definition fmax :: "pyfloat \<Rightarrow> pyfloat \<Rightarrow> pyfloat" where
  "fmax a b = (if fgt b a then b else a)"

section \<open>Validation results and the validator\<close>

record validation_result =
  errors :: "string list"
  warnings :: "string list"
  validation_status :: string

definition ValidationResult :: validation_result where
  "ValidationResult = \<lparr> errors = [], warnings = [], validation_status = ''passed'' \<rparr>"

definition add_error :: "validation_result \<Rightarrow> string \<Rightarrow> validation_result" where
  "add_error r e = r\<lparr> errors := errors r @ [e], validation_status := ''failed'' \<rparr>"

definition add_warning :: "validation_result \<Rightarrow> string \<Rightarrow> validation_result" where
  "add_warning r w =
    (let r1 = r\<lparr> warnings := warnings r @ [w] \<rparr>
     in if validation_status r1 = ''passed''
        then r1\<lparr> validation_status := ''flagged'' \<rparr> else r1)"

definition is_valid :: "validation_result \<Rightarrow> bool" where
  "is_valid r = (length (errors r) = 0)"

definition requires_manual_review :: "validation_result \<Rightarrow> bool" where
  "requires_manual_review r = (validation_status r \<in> set [''flagged'', ''failed''])"

text \<open>The two mutators of a result, and a run of calls on a fresh result.\<close>

datatype result_call = AddError string | AddWarning string

fun apply_call :: "validation_result \<Rightarrow> result_call \<Rightarrow> validation_result" where
  "apply_call r (AddError e) = add_error r e"
| "apply_call r (AddWarning w) = add_warning r w"

definition run_calls :: "result_call list \<Rightarrow> validation_result" where
  "run_calls calls = foldl apply_call ValidationResult calls"

text \<open>
  The status a result should carry, read off its two lists: the invariant the class
  documents (\<^verbatim>\<open>passed, flagged, failed\<close>).
\<close>

definition status_matches_lists :: "validation_result \<Rightarrow> bool" where
  "status_matches_lists r =
    ((validation_status r = ''failed'') = (errors r \<noteq> [])
     \<and> (validation_status r = ''flagged'') = (errors r = [] \<and> warnings r \<noteq> [])
     \<and> (validation_status r = ''passed'') = (errors r = [] \<and> warnings r = []))"

text \<open>
  A metric dictionary as the validator reads it. The value is a finite Python float,
  given by the real number it denotes. \<open>metric_name\<close> and \<open>confidence_score\<close> are
  read with \<^verbatim>\<open>.get\<close> and may be missing.
\<close>

record financial_metric =
  metric_type :: string
  metric_name :: "string option"
  metric_value :: real
  confidence_score :: "real option"

record extraction_result =
  ocr_confidence_avg :: "real option"

record config =
  ocr_confidence_threshold_document :: real
  ocr_confidence_threshold_metric :: real

text \<open>
  Python renders numbers into the messages with format specifications
  (\<^verbatim>\<open>{value:,.2f}\<close>, \<^verbatim>\<open>{x:.2f}\<close>, \<^verbatim>\<open>{x}\<close>). The rendering of a float is the
  language's, not the repository's: the validators take it as a parameter
  \<open>fmt spec x\<close>, with \<open>spec\<close> the text after the colon (empty for \<^verbatim>\<open>{x}\<close>).
\<close>

type_synonym float_format = "string \<Rightarrow> real \<Rightarrow> string"

text \<open>The same for the result of an operation, which may be infinite or NaN: these are
  rendered as \<^verbatim>\<open>inf\<close>, \<^verbatim>\<open>-inf\<close> and \<^verbatim>\<open>nan\<close> under every specification used here.\<close>

fun fmt_float :: "float_format \<Rightarrow> string \<Rightarrow> pyfloat \<Rightarrow> string" where
  "fmt_float fmt spec (Fin x) = fmt spec x"
| "fmt_float fmt spec PInf = ''inf''"
| "fmt_float fmt spec NInf = ''-inf''"
| "fmt_float fmt spec NaN = ''nan''"

text \<open>\<^verbatim>\<open>str\<close> of a non-negative integer and of an optional string.\<close>

definition digit_char :: "nat \<Rightarrow> char" where
  "digit_char d = ''0123456789'' ! d"

function str_nat :: "nat \<Rightarrow> string" where
  "str_nat n = (if n < 10 then [digit_char n] else str_nat (n div 10) @ [digit_char (n mod 10)])"
  by pat_completeness auto
termination
  by (relation "measure id") auto

declare str_nat.simps [simp del]

fun str_opt :: "string option \<Rightarrow> string" where
  "str_opt None = ''None''"
| "str_opt (Some s) = s"

text \<open>\<^verbatim>\<open>sep.join(parts)\<close>.\<close>

fun join :: "string \<Rightarrow> string list \<Rightarrow> string" where
  "join sep [] = []"
| "join sep [p] = p"
| "join sep (p # q # ps) = p @ sep @ join sep (q # ps)"

definition REQUIRED_INCOME_STATEMENT_METRICS :: "string list" where
  "REQUIRED_INCOME_STATEMENT_METRICS = [''revenue'', ''net_income'']"

definition RECOMMENDED_INCOME_STATEMENT_METRICS :: "string list" where
  "RECOMMENDED_INCOME_STATEMENT_METRICS = [''cogs'', ''gross_profit'', ''operating_expenses'']"

definition VALUE_RANGES :: "(string \<times> real \<times> real) list" where
  "VALUE_RANGES =
    [(''revenue'', (0, 1000000000000)),
     (''cogs'', (0, 1000000000000)),
     (''gross_profit'', (- 1000000000000, 1000000000000)),
     (''operating_expenses'', (0, 1000000000000)),
     (''operating_income'', (- 1000000000000, 1000000000000)),
     (''ebitda'', (- 1000000000000, 1000000000000)),
     (''net_income'', (- 1000000000000, 1000000000000))]"

subsection \<open>Completeness\<close>

definition validate_completeness ::
  "financial_metric list \<Rightarrow> extraction_result \<Rightarrow> validation_result" where
  "validate_completeness metrics er =
    (let metric_types = set (map metric_type metrics);
         r1 = foldl (\<lambda>r required_metric.
                if required_metric \<notin> metric_types
                then add_error r (''Missing required metric: '' @ required_metric @ ''. ''
                       @ ''Income statement must include revenue and net income.'')
                else r) ValidationResult REQUIRED_INCOME_STATEMENT_METRICS;
         r2 = foldl (\<lambda>r recommended_metric.
                if recommended_metric \<notin> metric_types
                then add_warning r (''Missing recommended metric: '' @ recommended_metric @ ''. ''
                       @ ''Consider verifying if this metric should be present in the document.'')
                else r) r1 RECOMMENDED_INCOME_STATEMENT_METRICS
     in if length metrics < 3
        then add_warning r2 (''Only '' @ str_nat (length metrics) @ '' financial metrics extracted. ''
               @ ''Expected at least 3-5 metrics for a complete income statement.'')
        else r2)"

subsection \<open>Ranges\<close>

text \<open>One pass of the loop body of \<^verbatim>\<open>validate_ranges\<close>; \<open>None\<close> from the table is
  the \<^verbatim>\<open>continue\<close>.\<close>

definition range_step :: "float_format \<Rightarrow> validation_result \<Rightarrow> financial_metric \<Rightarrow> validation_result" where
  "range_step fmt result metric =
    (case map_of VALUE_RANGES (metric_type metric) of
      None \<Rightarrow> result
    | Some (min_value, max_value) \<Rightarrow>
        (let v = metric_value metric;
             name = str_opt (metric_name metric);
             r1 = (if v < min_value \<or> v > max_value
                   then add_error result
                     (name @ '': Value '' @ fmt '',.2f'' v @ '' is outside reasonable range ''
                      @ ''['' @ fmt '',.2f'' min_value @ '', '' @ fmt '',.2f'' max_value @ '']. ''
                      @ ''This may indicate OCR extraction error or data quality issue.'')
                   else result);
             r2 = (if metric_type metric = ''revenue'' \<and> v \<le> 0
                   then add_error r1
                     (name @ '': Revenue must be positive (got '' @ fmt '',.2f'' v @ ''). ''
                      @ ''Negative or zero revenue indicates extraction error.'')
                   else r1);
             r3 = (if \<bar>v\<bar> > 100000000000
                   then add_warning r2
                     (name @ '': Value '' @ fmt '',.2f'' v @ '' is unusually large (> $100B). ''
                      @ ''Please verify this is correct.'')
                   else r2);
             r4 = (if \<bar>v\<bar> < 1000
                      \<and> metric_type metric \<in> set [''revenue'', ''cogs'', ''operating_expenses'']
                   then add_warning r3
                     (name @ '': Value '' @ fmt '',.2f'' v @ '' is unusually small (< $1,000). ''
                      @ ''Verify the correct magnitude was extracted (check for K/M/B suffixes).'')
                   else r3)
         in r4))"

definition validate_ranges :: "float_format \<Rightarrow> financial_metric list \<Rightarrow> validation_result" where
  "validate_ranges fmt metrics = foldl (range_step fmt) ValidationResult metrics"

subsection \<open>Confidence\<close>

definition validate_confidence ::
  "float_format \<Rightarrow> config \<Rightarrow> financial_metric list \<Rightarrow> extraction_result \<Rightarrow> validation_result" where
  "validate_confidence fmt cfg metrics er =
    (let doc_confidence = (case ocr_confidence_avg er of None \<Rightarrow> 0 | Some c \<Rightarrow> c);
         doc_threshold = ocr_confidence_threshold_document cfg;
         r1 = (if doc_confidence < doc_threshold
               then add_warning ValidationResult
                 (''Document OCR confidence '' @ fmt ''.2f'' doc_confidence
                  @ '' is below threshold '' @ fmt [] doc_threshold @ ''. ''
                  @ ''Extracted data may require manual verification. ''
                  @ ''Consider re-scanning with higher quality or enhanced OCR.'')
               else ValidationResult);
         metric_threshold = ocr_confidence_threshold_metric cfg;
         low_confidence_metrics =
           concat (map (\<lambda>metric.
             (let confidence = (case confidence_score metric of None \<Rightarrow> 0 | Some c \<Rightarrow> c)
              in if confidence < metric_threshold
                 then [str_opt (metric_name metric) @ '' (confidence: ''
                       @ fmt ''.2f'' confidence @ '')'']
                 else [])) metrics);
         r2 = (if low_confidence_metrics \<noteq> []
               then add_warning r1
                 (str_nat (length low_confidence_metrics)
                  @ '' metric(s) have low confidence (< '' @ fmt [] metric_threshold @ ''): ''
                  @ join '', '' (take 3 low_confidence_metrics)
                  @ (if length low_confidence_metrics > 3 then ''...'' else []))
               else r1)
     in if doc_confidence < 0.60
        then add_error r2
          (''Document OCR confidence '' @ fmt ''.2f'' doc_confidence
           @ '' is critically low (< 0.60). ''
           @ ''Extraction results are unreliable and require manual data entry.'')
        else r2)"

subsection \<open>Relationships\<close>

text \<open>
  The dictionary comprehension \<^verbatim>\<open>{metric["metric_type"]: metric["value"] ...}\<close>: a later
  metric of the same type overwrites an earlier one.
\<close>

text \<open>
  In \<open>validate_relationships\<close> the difference \<^verbatim>\<open>revenue - cogs\<close>, the tolerance
  \<^verbatim>\<open>abs(...) * 0.01\<close> and the difference to the gross profit are float operations;
  \<open>fl 0.01\<close> is the double that the literal \<^verbatim>\<open>0.01\<close> denotes.
\<close>

definition metric_lookup :: "financial_metric list \<Rightarrow> string \<rightharpoonup> real" where
  "metric_lookup metrics = map_of (rev (map (\<lambda>metric. (metric_type metric, metric_value metric)) metrics))"

definition validate_relationships :: "float_format \<Rightarrow> financial_metric list \<Rightarrow> validation_result" where
  "validate_relationships fmt metrics =
    (let lookup = metric_lookup metrics;
         r1 = (if list_all (\<lambda>k. lookup k \<noteq> None) [''revenue'', ''cogs'', ''gross_profit'']
               then
                 (let revenue = the (lookup ''revenue'');
                      cogs = the (lookup ''cogs'');
                      gross_profit = the (lookup ''gross_profit'');
                      calculated_gross_profit = fsub (Fin revenue) (Fin cogs);
                      tolerance = fmul (fabs calculated_gross_profit) (fl 0.01)
                  in if fgt (fabs (fsub (Fin gross_profit) calculated_gross_profit))
                          (fmax tolerance (Fin 1000))
                     then add_warning ValidationResult
                       (''Gross Profit mismatch: Expected ''
                        @ fmt_float fmt '',.2f'' calculated_gross_profit
                        @ '' (Revenue '' @ fmt '',.2f'' revenue
                        @ '' - COGS '' @ fmt '',.2f'' cogs @ ''), ''
                        @ ''but got '' @ fmt '',.2f'' gross_profit @ ''. ''
                        @ ''Verify extraction accuracy.'')
                     else ValidationResult)
               else ValidationResult)
     in if lookup ''revenue'' \<noteq> None \<and> lookup ''cogs'' \<noteq> None
        then if the (lookup ''revenue'') > the (lookup ''cogs'')
             then if lookup ''gross_profit'' \<noteq> None \<and> the (lookup ''gross_profit'') \<le> 0
                  then add_error r1
                    (''Gross Profit should be positive when Revenue > COGS. ''
                     @ ''Got Gross Profit='' @ fmt '',.2f'' (the (lookup ''gross_profit'')))
                  else r1
             else r1
        else r1)"

subsection \<open>All passes\<close>

definition validate_all ::
  "float_format \<Rightarrow> config \<Rightarrow> financial_metric list \<Rightarrow> extraction_result \<Rightarrow> validation_result" where
  "validate_all fmt cfg metrics er =
    (let completeness_result = validate_completeness metrics er;
         range_result = validate_ranges fmt metrics;
         confidence_result = validate_confidence fmt cfg metrics er;
         relationship_result = validate_relationships fmt metrics;
         all_errors = errors completeness_result @ errors range_result
                      @ errors confidence_result @ errors relationship_result;
         all_warnings = warnings completeness_result @ warnings range_result
                      @ warnings confidence_result @ warnings relationship_result
     in \<lparr> errors = all_errors, warnings = all_warnings,
          validation_status = (if all_errors \<noteq> [] then ''failed''
                               else if all_warnings \<noteq> [] then ''flagged''
                               else ''passed'') \<rparr>)"

section \<open>Retry eligibility\<close>

datatype py_error = TypeError string | ValueError string







section \<open>Confidence scorer\<close>

text \<open>
  \<^verbatim>\<open>ConfidenceScorer.should_flag_for_review\<close>; the defaults of the two thresholds are
  0.75 and 0.70. Confidences are modelled as real numbers.
\<close>

definition should_flag_for_review :: "real \<Rightarrow> real \<Rightarrow> real \<Rightarrow> bool" where
  "should_flag_for_review confidence document_threshold metric_threshold =
    (confidence < metric_threshold)"

section \<open>Number parser\<close>

text \<open>
  A Python \<^verbatim>\<open>str\<close> is a sequence of Unicode code points, and \<^verbatim>\<open>len\<close>, slicing and
  \<^verbatim>\<open>replace\<close> count code points: the text is a list of code points, so that the
  currency symbols beyond ASCII are single elements. \<open>ustr\<close> writes an ASCII literal.
\<close>

type_synonym ustring = "nat list"

definition ustr :: "string \<Rightarrow> ustring" where
  "ustr s = map of_char s"

text \<open>What \<^verbatim>\<open>parse_financial_number\<close> may be handed: \<^verbatim>\<open>None\<close>, a string, or any
  other object with a truth value (a number, a date): for these the function returns
  at its first test, whatever the truth value is.\<close>

datatype pyval = PyNone | PyStr ustring | PyOther

subsection \<open>String primitives\<close>

text \<open>The code points \<^verbatim>\<open>str.isspace\<close> accepts, which \<^verbatim>\<open>strip\<close> removes.\<close>

definition is_space :: "nat \<Rightarrow> bool" where
  "is_space c =
    ((9 \<le> c \<and> c \<le> 13) \<or> (28 \<le> c \<and> c \<le> 32) \<or> c = 0x85 \<or> c = 0xA0 \<or> c = 0x1680
     \<or> (0x2000 \<le> c \<and> c \<le> 0x200A) \<or> c = 0x2028 \<or> c = 0x2029 \<or> c = 0x202F
     \<or> c = 0x205F \<or> c = 0x3000)"

definition strip :: "ustring \<Rightarrow> ustring" where
  "strip s = rev (dropWhile is_space (rev (dropWhile is_space s)))"

text \<open>
  \<^verbatim>\<open>str.upper\<close> on the ASCII letters. Every other code point is taken as caseless,
  which holds for the digits, the punctuation and the currency symbols the parser
  deals with; text with other cased letters is outside the model.
\<close>

definition upper_cp :: "nat \<Rightarrow> nat" where
  "upper_cp c = (if 97 \<le> c \<and> c \<le> 122 then c - 32 else c)"

definition lower_cp :: "nat \<Rightarrow> nat" where
  "lower_cp c = (if 65 \<le> c \<and> c \<le> 90 then c + 32 else c)"

definition upper :: "ustring \<Rightarrow> ustring" where
  "upper s = map upper_cp s"

fun dec_count :: "nat option \<Rightarrow> nat option" where
  "dec_count None = None"
| "dec_count (Some n) = Some (n - 1)"

text \<open>
  \<^verbatim>\<open>text.replace(old, new, count)\<close>: occurrences are replaced from the left and do not
  overlap; \<open>None\<close> for \<open>count\<close> replaces all of them. An empty \<open>old\<close> matches before
  every element and at the end.
\<close>

function py_replace :: "'a list \<Rightarrow> 'a list \<Rightarrow> nat option \<Rightarrow> 'a list \<Rightarrow> 'a list" where
  "py_replace old new count text =
    (if count = Some 0 then text
     else if text = [] then (if old = [] then new else [])
     else if old = [] then new @ hd text # py_replace old new (dec_count count) (tl text)
     else if prefix old text
       then new @ py_replace old new (dec_count count) (drop (length old) text)
     else hd text # py_replace old new count (tl text))"
  by pat_completeness auto
termination
  by (relation "measure (\<lambda>(old, new, count, text). length text)") auto

declare py_replace.simps [simp del]

text \<open>\<^verbatim>\<open>text.rfind(c)\<close> for a single character: the last index, or \<open>-1\<close>.\<close>

definition rfind :: "'a list \<Rightarrow> 'a \<Rightarrow> int" where
  "rfind text c =
    (if c \<in> set text
     then int (length text) - 1 - int (length (takeWhile (\<lambda>x. x \<noteq> c) (rev text)))
     else - 1)"

subsection \<open>Reading a float from text\<close>

text \<open>
  \<^verbatim>\<open>float()\<close> reads every Unicode decimal digit (general category Nd). The digits come
  in runs of ten, from the zero to the nine of a script; the table lists the zero of
  each run (Unicode 14.0).
\<close>

definition DECIMAL_ZEROS :: "nat list" where
  "DECIMAL_ZEROS =
    [0x30, 0x660, 0x6F0, 0x7C0, 0x966, 0x9E6, 0xA66, 0xAE6,
     0xB66, 0xBE6, 0xC66, 0xCE6, 0xD66, 0xDE6, 0xE50, 0xED0,
     0xF20, 0x1040, 0x1090, 0x17E0, 0x1810, 0x1946, 0x19D0, 0x1A80,
     0x1A90, 0x1B50, 0x1BB0, 0x1C40, 0x1C50, 0xA620, 0xA8D0, 0xA900,
     0xA9D0, 0xA9F0, 0xAA50, 0xABF0, 0xFF10, 0x104A0, 0x10D30, 0x11066,
     0x110F0, 0x11136, 0x111D0, 0x112F0, 0x11450, 0x114D0, 0x11650, 0x116C0,
     0x11730, 0x118E0, 0x11950, 0x11C50, 0x11D50, 0x11DA0, 0x16A60, 0x16AC0,
     0x16B50, 0x1D7CE, 0x1D7D8, 0x1D7E2, 0x1D7EC, 0x1D7F6, 0x1E140, 0x1E2F0,
     0x1E950, 0x1FBF0]"

definition digit_of :: "nat \<Rightarrow> nat option" where
  "digit_of c =
    (case find (\<lambda>z. z \<le> c \<and> c \<le> z + 9) DECIMAL_ZEROS of
      None \<Rightarrow> None
    | Some z \<Rightarrow> Some (c - z))"

text \<open>The ASCII digits, the ones \<^verbatim>\<open>str\<close> of a number is written with.\<close>

definition ascii_digit :: "nat \<Rightarrow> bool" where
  "ascii_digit c = (48 \<le> c \<and> c \<le> 57)"

text \<open>
  The longest prefix of the form \<^verbatim>\<open>digit (["_"] digit)*\<close>, once a first digit has been
  read: the values of the further digits, and the rest of the text.
\<close>

fun digits_more :: "ustring \<Rightarrow> nat list \<times> ustring" where
  "digits_more [] = ([], [])"
| "digits_more [c] = (case digit_of c of Some v \<Rightarrow> ([v], []) | None \<Rightarrow> ([], [c]))"
| "digits_more (c # d # cs) =
    (case digit_of c of
      Some v \<Rightarrow> (case digits_more (d # cs) of (ds, r) \<Rightarrow> (v # ds, r))
    | None \<Rightarrow>
        (case (if c = 95 then digit_of d else None) of
          Some w \<Rightarrow> (case digits_more cs of (ds, r) \<Rightarrow> (w # ds, r))
        | None \<Rightarrow> ([], c # d # cs)))"

text \<open>\<^verbatim>\<open>digitpart\<close> of the grammar of \<^verbatim>\<open>float()\<close>; no digits when the text does not
  start with one.\<close>

fun digitpart :: "ustring \<Rightarrow> nat list \<times> ustring" where
  "digitpart [] = ([], [])"
| "digitpart (c # cs) =
    (case digit_of c of
      Some v \<Rightarrow> (case digits_more cs of (ds, r) \<Rightarrow> (v # ds, r))
    | None \<Rightarrow> ([], c # cs))"

definition digits_value :: "nat list \<Rightarrow> nat" where
  "digits_value ds = foldl (\<lambda>a d. 10 * a + d) 0 ds"

text \<open>An optional sign: whether it is a minus, and the rest.\<close>

fun read_sign :: "ustring \<Rightarrow> bool \<times> ustring" where
  "read_sign [] = (False, [])"
| "read_sign (c # cs) =
    (if c = 45 then (True, cs) else if c = 43 then (False, cs) else (False, c # cs))"

text \<open>
  \<^verbatim>\<open>floatnumber\<close>: \<^verbatim>\<open>[digitpart] "." digitpart | digitpart ["."]\<close>, then an optional
  exponent \<^verbatim>\<open>("e" | "E") [sign] digitpart\<close>, up to the end of the text. The result is
  the number the text denotes, not yet rounded.
\<close>

definition read_number :: "ustring \<Rightarrow> real option" where
  "read_number s =
    (case digitpart s of (ip, r1) \<Rightarrow>
      (case (if r1 \<noteq> [] \<and> hd r1 = 46 then digitpart (tl r1) else ([], r1)) of (fp, r2) \<Rightarrow>
        if ip = [] \<and> fp = [] then None
        else
          (let mantissa = real (digits_value (ip @ fp)) / 10 ^ length fp
           in if r2 = [] then Some mantissa
              else if hd r2 = 101 \<or> hd r2 = 69
                then (case read_sign (tl r2) of (neg, r3) \<Rightarrow>
                  (case digitpart r3 of (ep, r4) \<Rightarrow>
                    if ep = [] \<or> r4 \<noteq> [] then None
                    else if neg then Some (mantissa / 10 ^ digits_value ep)
                    else Some (mantissa * 10 ^ digits_value ep)))
              else None)))"

text \<open>
  The whitespace \<^verbatim>\<open>float()\<close> drops around the text: the ASCII whitespace of C (tab to
  carriage return, and the space) and the Unicode whitespace beyond ASCII. The
  separators \<open>U+001C\<close> to \<open>U+001F\<close>, which \<^verbatim>\<open>str.strip\<close> removes, are not dropped.
\<close>

definition is_float_space :: "nat \<Rightarrow> bool" where
  "is_float_space c = ((9 \<le> c \<and> c \<le> 13) \<or> c = 32 \<or> (128 \<le> c \<and> is_space c))"

definition float_strip :: "ustring \<Rightarrow> ustring" where
  "float_strip s = rev (dropWhile is_float_space (rev (dropWhile is_float_space s)))"

text \<open>
  \<^verbatim>\<open>float(text)\<close>: surrounding whitespace is dropped, then an optional sign and a
  number, \<^verbatim>\<open>inf\<close>, \<^verbatim>\<open>infinity\<close> or \<^verbatim>\<open>nan\<close> in any case. The number is rounded to the
  nearest double. Anything else raises \<^verbatim>\<open>ValueError\<close>.
\<close>

definition py_float :: "ustring \<Rightarrow> py_error + pyfloat" where
  "py_float text =
    (case read_sign (float_strip text) of (neg, body) \<Rightarrow>
      (let low = map lower_cp body
       in if low = ustr ''inf'' \<or> low = ustr ''infinity''
            then Inr (if neg then NInf else PInf)
          else if low = ustr ''nan'' then Inr NaN
          else (case read_number body of
                 Some x \<Rightarrow> Inr (double (if neg then - x else x))
               | None \<Rightarrow> Inl (ValueError ''could not convert string to float''))))"

subsection \<open>The parser\<close>

definition CURRENCY_SYMBOLS :: "ustring list" where
  "CURRENCY_SYMBOLS =
    [[0x24], [0x20AC], [0xA3], [0xA5], [0x20B9],
     ustr ''USD'', ustr ''EUR'', ustr ''GBP'', ustr ''JPY'', ustr ''INR'']"

definition currency_map :: "(ustring \<times> string) list" where
  "currency_map =
    [([0x24], ''USD''), ([0x20AC], ''EUR''), ([0xA3], ''GBP''), ([0xA5], ''JPY''),
     ([0x20B9], ''INR''),
     (ustr ''USD'', ''USD''), (ustr ''EUR'', ''EUR''), (ustr ''GBP'', ''GBP''),
     (ustr ''JPY'', ''JPY''), (ustr ''INR'', ''INR'')]"

definition MAGNITUDE_MULTIPLIERS :: "(ustring \<times> real) list" where
  "MAGNITUDE_MULTIPLIERS =
    [(ustr ''K'', 1000),
     (ustr ''M'', 1000000),
     (ustr ''B'', 1000000000),
     (ustr ''T'', 1000000000000),
     (ustr ''THOUSAND'', 1000),
     (ustr ''MILLION'', 1000000),
     (ustr ''BILLION'', 1000000000),
     (ustr ''TRILLION'', 1000000000000)]"

text \<open>\<^verbatim>\<open>_detect_currency\<close>: the code of the first symbol of the table that occurs in the
  text.\<close>

fun detect_currency_loop :: "(ustring \<times> string) list \<Rightarrow> ustring \<Rightarrow> string option" where
  "detect_currency_loop [] text = None"
| "detect_currency_loop ((symbol, code) # rest) text =
    (if sublist symbol text then Some code else detect_currency_loop rest text)"

definition detect_currency :: "ustring \<Rightarrow> string option" where
  "detect_currency text = detect_currency_loop currency_map text"

text \<open>The loop over the magnitude suffixes, left at the first suffix that matches:
  the multiplier and the text without the suffix.\<close>

fun magnitude_loop :: "(ustring \<times> real) list \<Rightarrow> ustring \<Rightarrow> ustring \<Rightarrow> real \<times> ustring" where
  "magnitude_loop [] text_upper text = (1, text)"
| "magnitude_loop ((sfx, multiplier) # rest) text_upper text =
    (if suffix sfx text_upper
     then (multiplier, strip (take (length text - length sfx) text))
     else magnitude_loop rest text_upper text)"

text \<open>The separator rules (the block on commas and periods).\<close>

definition separators :: "ustring \<Rightarrow> ustring" where
  "separators text =
    (let comma_count = count_list text 44;
         period_count = count_list text 46
     in if comma_count > 0 \<and> period_count > 0
        then (let last_comma_pos = rfind text 44;
                  last_period_pos = rfind text 46
              in if last_comma_pos > last_period_pos
                 then py_replace [44] [46] None (py_replace [46] [] None text)
                 else py_replace [44] [] None text)
        else if comma_count > 0
        then (let last_comma_pos = rfind text 44;
                  chars_after_comma = int (length text) - last_comma_pos - 1
              in if chars_after_comma = 2
                 then py_replace [44] [] None (py_replace [44] [46] (Some 1) text)
                 else py_replace [44] [] None text)
        else text)"

text \<open>
  Everything \<^verbatim>\<open>parse_financial_number\<close> does to a non-empty string before the call of
  \<^verbatim>\<open>float\<close>: the detected currency, the sign of the parentheses, the multiplier and
  the cleaned text.
\<close>

definition clean_text :: "ustring \<Rightarrow> string option \<times> bool \<times> real \<times> ustring" where
  "clean_text text0 =
    (let text1 = strip text0;
         currency = detect_currency text1;
         text2 = foldl (\<lambda>text symbol. py_replace symbol [] None text) text1 CURRENCY_SYMBOLS;
         text3 = strip text2;
         is_negative = (prefix [40] text3 \<and> suffix [41] text3);
         text4 = (if is_negative then strip (butlast (tl text3)) else text3)
     in case magnitude_loop MAGNITUDE_MULTIPLIERS (upper text4) text4 of
          (magnitude_multiplier, text5) \<Rightarrow>
            (currency, is_negative, magnitude_multiplier, separators text5))"

definition parse_financial_number :: "pyval \<Rightarrow> py_error + (pyfloat option \<times> string option)" where
  "parse_financial_number arg =
    (case arg of
      PyNone \<Rightarrow> Inr (None, None)
    | PyOther \<Rightarrow> Inr (None, None)
    | PyStr text0 \<Rightarrow>
        if text0 = [] then Inr (None, None)
        else
          (case clean_text text0 of (currency, is_negative, magnitude_multiplier, text) \<Rightarrow>
            (case py_float text of
              Inr f \<Rightarrow>
                (let v = fmul f magnitude_multiplier;
                     v1 = (if is_negative then fneg v else v)
                 in Inr (Some v1, currency))
            | Inl (ValueError msg) \<Rightarrow> Inr (None, None)
            | Inl e \<Rightarrow> Inl e)))"

text \<open>
  A decimal rendering of the non-negative number \<open>k / 10 ^ d\<close> with \<open>d\<close> decimals:
  the integer rendering when \<open>d = 0\<close>, otherwise the integer part, a period and \<open>d\<close>
  fraction digits.
\<close>

definition render_decimal :: "nat \<Rightarrow> nat \<Rightarrow> string" where
  "render_decimal k d =
    (if d = 0 then str_nat k
     else str_nat (k div 10 ^ d) @ ''.''
          @ replicate (d - length (str_nat (k mod 10 ^ d))) CHR ''0'' @ str_nat (k mod 10 ^ d))"

section \<open>Sample inputs\<close>

text \<open>Concrete inputs for the closed instances of the theorems below.\<close>

definition log_entry :: "string \<Rightarrow> processing_log" where
  "log_entry t =
    \<lparr> event_type = t, event_timestamp = ''2024-01-15T10:30:00Z'', event_data = Some Map.empty \<rparr>"


definition metric :: "string \<Rightarrow> real \<Rightarrow> financial_metric" where
  "metric t v =
    \<lparr> metric_type = t, metric_name = None, metric_value = v, confidence_score = None \<rparr>"

text \<open>A number format to instantiate the parameter with: two decimals, rounded half
  up, for every format specification, without digit grouping.\<close>

definition two_decimals :: float_format where
  "two_decimals spec x =
    (if x < 0 then ''-'' else []) @ render_decimal (nat \<lfloor>\<bar>x\<bar> * 100 + 1 / 2\<rfloor>) 2"

section \<open>Properties of the status derivation\<close>

lemma progress_of_set:
  "calculate_progress E =
    (let c = (if ''queued'' \<in> E then [''upload''] else [])
           @ (if ''ingestion_started'' \<in> E then [''ingestion''] else [])
           @ (if ''extraction_started'' \<in> E \<or> ''extraction_completed'' \<in> E
              then [''extraction''] else [])
           @ (if ''validation_started'' \<in> E \<or> ''validation_completed'' \<in> E
              then [''validation''] else [])
     in \<lparr> current_stage = (if c = [] then ''queued'' else last c),
          stages_completed = c,
          completion_percentage = length c * 25 \<rparr>)"
  by (simp add: calculate_progress_def stages_def Let_def)

text \<open>
  Claim C2. The derived status is \<open>failed\<close> whenever a \<open>failed\<close> event is in the log,
  whatever else is there; otherwise \<open>completed\<close> with a \<open>validation_completed\<close> event,
  otherwise \<open>processing\<close> with \<open>validation_started\<close> or \<open>extraction_started\<close>, otherwise
  \<open>queued\<close> with \<open>queued\<close> or \<open>ingestion_started\<close>, otherwise \<open>unknown\<close>. For a log whose
  event types are exactly queued, extraction_started and failed, the status is \<open>failed\<close>,
  the current stage is \<open>extraction\<close> and the completion percentage is 50.
\<close>

theorem status_precedence:
  "(''failed'' \<in> set (map event_type logs) \<longrightarrow>
      status (determine_status_from_logs logs d) = ''failed'')
   \<and> (''failed'' \<notin> set (map event_type logs)
        \<and> ''validation_completed'' \<in> set (map event_type logs) \<longrightarrow>
      status (determine_status_from_logs logs d) = ''completed'')
   \<and> (''failed'' \<notin> set (map event_type logs)
        \<and> ''validation_completed'' \<notin> set (map event_type logs)
        \<and> (''validation_started'' \<in> set (map event_type logs)
             \<or> ''extraction_started'' \<in> set (map event_type logs)) \<longrightarrow>
      status (determine_status_from_logs logs d) = ''processing'')
   \<and> (''failed'' \<notin> set (map event_type logs)
        \<and> ''validation_completed'' \<notin> set (map event_type logs)
        \<and> ''validation_started'' \<notin> set (map event_type logs)
        \<and> ''extraction_started'' \<notin> set (map event_type logs)
        \<and> (''queued'' \<in> set (map event_type logs)
             \<or> ''ingestion_started'' \<in> set (map event_type logs)) \<longrightarrow>
      status (determine_status_from_logs logs d) = ''queued'')
   \<and> (''failed'' \<notin> set (map event_type logs)
        \<and> ''validation_completed'' \<notin> set (map event_type logs)
        \<and> ''validation_started'' \<notin> set (map event_type logs)
        \<and> ''extraction_started'' \<notin> set (map event_type logs)
        \<and> ''queued'' \<notin> set (map event_type logs)
        \<and> ''ingestion_started'' \<notin> set (map event_type logs) \<longrightarrow>
      status (determine_status_from_logs logs d) = ''unknown'')
   \<and> (set (map event_type logs) = {''queued'', ''extraction_started'', ''failed''} \<longrightarrow>
      status (determine_status_from_logs logs d) = ''failed''
      \<and> current_stage (progress (determine_status_from_logs logs d)) = ''extraction''
      \<and> completion_percentage (progress (determine_status_from_logs logs d)) = 50)"
  by (simp add: determine_status_from_logs_def Let_def progress_of_set)

theorem status_precedence_witness:
  "set (map event_type
      [log_entry ''failed'', log_entry ''validation_completed'',
       log_entry ''extraction_started'', log_entry ''queued''])
     = {''queued'', ''extraction_started'', ''validation_completed'', ''failed''}
   \<and> status (determine_status_from_logs
      [log_entry ''failed'', log_entry ''validation_completed'',
       log_entry ''extraction_started'', log_entry ''queued''] ''doc-1'') = ''failed''
   \<and> status (determine_status_from_logs
      [log_entry ''validation_completed'', log_entry ''queued''] ''doc-1'') = ''completed''
   \<and> status (determine_status_from_logs
      [log_entry ''extraction_started'', log_entry ''queued''] ''doc-1'') = ''processing''
   \<and> status (determine_status_from_logs [log_entry ''ingestion_started''] ''doc-1'') = ''queued''
   \<and> status (determine_status_from_logs [log_entry ''retry_initiated''] ''doc-1'') = ''unknown''
   \<and> set (map event_type
      [log_entry ''failed'', log_entry ''extraction_started'', log_entry ''queued''])
     = {''queued'', ''extraction_started'', ''failed''}
   \<and> status (determine_status_from_logs
      [log_entry ''failed'', log_entry ''extraction_started'', log_entry ''queued''] ''doc-1'')
     = ''failed''
   \<and> current_stage (progress (determine_status_from_logs
      [log_entry ''failed'', log_entry ''extraction_started'', log_entry ''queued''] ''doc-1''))
     = ''extraction''
   \<and> completion_percentage (progress (determine_status_from_logs
      [log_entry ''failed'', log_entry ''extraction_started'', log_entry ''queued''] ''doc-1''))
     = 50"
proof -
  have a: "status (determine_status_from_logs
      [log_entry ''failed'', log_entry ''validation_completed'',
       log_entry ''extraction_started'', log_entry ''queued''] ''doc-1'') = ''failed''"
    using status_precedence [of "[log_entry ''failed'', log_entry ''validation_completed'',
       log_entry ''extraction_started'', log_entry ''queued'']" "''doc-1''"]
    by (simp add: log_entry_def)
  have b: "status (determine_status_from_logs
      [log_entry ''validation_completed'', log_entry ''queued''] ''doc-1'') = ''completed''"
    using status_precedence [of "[log_entry ''validation_completed'', log_entry ''queued'']"
        "''doc-1''"]
    by (simp add: log_entry_def)
  have c: "status (determine_status_from_logs
      [log_entry ''extraction_started'', log_entry ''queued''] ''doc-1'') = ''processing''"
    using status_precedence [of "[log_entry ''extraction_started'', log_entry ''queued'']"
        "''doc-1''"]
    by (simp add: log_entry_def)
  have d: "status (determine_status_from_logs [log_entry ''ingestion_started''] ''doc-1'')
      = ''queued''"
    using status_precedence [of "[log_entry ''ingestion_started'']" "''doc-1''"]
    by (simp add: log_entry_def)
  have e: "status (determine_status_from_logs [log_entry ''retry_initiated''] ''doc-1'')
      = ''unknown''"
    using status_precedence [of "[log_entry ''retry_initiated'']" "''doc-1''"]
    by (simp add: log_entry_def)
  have s1: "set (map event_type
      [log_entry ''failed'', log_entry ''validation_completed'',
       log_entry ''extraction_started'', log_entry ''queued''])
     = {''queued'', ''extraction_started'', ''validation_completed'', ''failed''}"
    by (auto simp: log_entry_def)
  have s2: "set (map event_type
      [log_entry ''failed'', log_entry ''extraction_started'', log_entry ''queued''])
     = {''queued'', ''extraction_started'', ''failed''}"
    by (auto simp: log_entry_def)
  have f: "status (determine_status_from_logs
      [log_entry ''failed'', log_entry ''extraction_started'', log_entry ''queued''] ''doc-1'')
     = ''failed''
   \<and> current_stage (progress (determine_status_from_logs
      [log_entry ''failed'', log_entry ''extraction_started'', log_entry ''queued''] ''doc-1''))
     = ''extraction''
   \<and> completion_percentage (progress (determine_status_from_logs
      [log_entry ''failed'', log_entry ''extraction_started'', log_entry ''queued''] ''doc-1''))
     = 50"
    using s2 status_precedence [of "[log_entry ''failed'', log_entry ''extraction_started'',
       log_entry ''queued'']" "''doc-1''"]
    by blast
  from a b c d e s1 s2 f show ?thesis by blast
qed

text \<open>
  Claim C10. For a log whose event types are exactly extraction_completed, the status
  is \<open>unknown\<close> (the status chain does not consult that event), while the progress of the
  same log reports the current stage \<open>extraction\<close>, the completed stages
  \<open>[extraction]\<close> and 25 percent.
\<close>

theorem unknown_status_with_progress:
  "set (map event_type logs) = {''extraction_completed''} \<Longrightarrow>
     status (determine_status_from_logs logs d) = ''unknown''
     \<and> current_stage (progress (determine_status_from_logs logs d)) = ''extraction''
     \<and> stages_completed (progress (determine_status_from_logs logs d)) = [''extraction'']
     \<and> completion_percentage (progress (determine_status_from_logs logs d)) = 25"
  by (simp add: determine_status_from_logs_def Let_def progress_of_set)

theorem unknown_status_with_progress_witness:
  "set (map event_type [log_entry ''extraction_completed'', log_entry ''extraction_completed''])
     = {''extraction_completed''}
   \<and> status (determine_status_from_logs
        [log_entry ''extraction_completed'', log_entry ''extraction_completed''] ''doc-1'')
       = ''unknown''
   \<and> current_stage (progress (determine_status_from_logs
        [log_entry ''extraction_completed'', log_entry ''extraction_completed''] ''doc-1''))
       = ''extraction''
   \<and> stages_completed (progress (determine_status_from_logs
        [log_entry ''extraction_completed'', log_entry ''extraction_completed''] ''doc-1''))
       = [''extraction'']
   \<and> completion_percentage (progress (determine_status_from_logs
        [log_entry ''extraction_completed'', log_entry ''extraction_completed''] ''doc-1''))
       = 25"
proof -
  have h: "set (map event_type
      [log_entry ''extraction_completed'', log_entry ''extraction_completed''])
     = {''extraction_completed''}"
    by (simp add: log_entry_def)
  show ?thesis
    using h unknown_status_with_progress [OF h, of "''doc-1''"] by simp
qed

section \<open>Properties of validation results\<close>

lemma add_error_keeps: "status_matches_lists (add_error r e)"
  by (simp add: status_matches_lists_def add_error_def)

lemma add_warning_keeps: "status_matches_lists r \<Longrightarrow> status_matches_lists (add_warning r w)"
  by (auto simp: status_matches_lists_def add_warning_def Let_def)

lemma fresh_matches: "status_matches_lists ValidationResult"
  by (simp add: status_matches_lists_def ValidationResult_def)

lemma apply_call_keeps: "status_matches_lists r \<Longrightarrow> status_matches_lists (apply_call r c)"
  by (cases c) (simp_all add: add_error_keeps add_warning_keeps)

lemma foldl_calls_keep:
  "status_matches_lists r \<Longrightarrow> status_matches_lists (foldl apply_call r calls)"
  by (induction calls arbitrary: r) (simp_all add: apply_call_keeps)

lemma combined_matches:
  "status_matches_lists \<lparr> errors = es, warnings = ws,
      validation_status = (if es \<noteq> [] then ''failed''
                           else if ws \<noteq> [] then ''flagged'' else ''passed'') \<rparr>"
  by (cases es; cases ws) (simp_all add: status_matches_lists_def)

lemma validate_all_matches: "status_matches_lists (validate_all fmt cfg metrics er)"
  unfolding validate_all_def Let_def by (rule combined_matches)

lemma errors_add_error: "errors (add_error r e) = errors r @ [e]"
  by (simp add: add_error_def)

lemma errors_add_warning: "errors (add_warning r w) = errors r"
  by (simp add: add_warning_def Let_def)

lemma warnings_add_error: "warnings (add_error r e) = warnings r"
  by (simp add: add_error_def)

lemma warnings_add_warning: "warnings (add_warning r w) = warnings r @ [w]"
  by (simp add: add_warning_def Let_def)

text \<open>
  Claim C3. For a result built by any sequence of \<open>add_error\<close> and \<open>add_warning\<close> calls,
  and for the combined result of \<open>validate_all\<close>, the status is \<open>failed\<close> exactly when
  there is an error, \<open>flagged\<close> exactly when there is no error but a warning, and
  \<open>passed\<close> otherwise. Adding an error makes the status \<open>failed\<close>; adding a warning
  turns \<open>passed\<close> into \<open>flagged\<close> and leaves every other status, \<open>failed\<close> included, as
  it is.
\<close>

theorem status_follows_lists:
  "status_matches_lists (run_calls calls)
   \<and> status_matches_lists (validate_all fmt cfg metrics er)
   \<and> validation_status (add_error r e) = ''failed''
   \<and> (validation_status r = ''passed'' \<longrightarrow> validation_status (add_warning r w) = ''flagged'')
   \<and> (validation_status r \<noteq> ''passed'' \<longrightarrow>
        validation_status (add_warning r w) = validation_status r)"
  by (simp add: run_calls_def foldl_calls_keep fresh_matches validate_all_matches
        add_error_def add_warning_def Let_def)

theorem status_follows_lists_witness:
  "validation_status ValidationResult = ''passed''
   \<and> validation_status (add_warning ValidationResult ''first warning'') = ''flagged''
   \<and> validation_status (add_error ValidationResult ''first error'') \<noteq> ''passed''
   \<and> validation_status (add_warning (add_error ValidationResult ''first error'') ''late warning'')
       = validation_status (add_error ValidationResult ''first error'')
   \<and> validation_status (add_error ValidationResult ''first error'') = ''failed''
   \<and> status_matches_lists
        (run_calls [AddWarning ''first warning'', AddError ''first error'',
                    AddWarning ''late warning''])
   \<and> status_matches_lists
        (validate_all two_decimals
           \<lparr> ocr_confidence_threshold_document = 0.75, ocr_confidence_threshold_metric = 0.70 \<rparr>
           [metric ''revenue'' 1000000, metric ''cogs'' 600000]
           \<lparr> ocr_confidence_avg = Some 0.9 \<rparr>)"
proof -
  have p: "validation_status ValidationResult = ''passed''"
    by (simp add: ValidationResult_def)
  have q: "validation_status (add_error ValidationResult ''first error'') \<noteq> ''passed''"
    by (simp add: add_error_def)
  have a: "validation_status (add_warning ValidationResult ''first warning'') = ''flagged''"
    using p status_follows_lists [of "[]" two_decimals
        "\<lparr> ocr_confidence_threshold_document = 0.75, ocr_confidence_threshold_metric = 0.70 \<rparr>"
        "[]" "\<lparr> ocr_confidence_avg = None \<rparr>" ValidationResult "''first error''"
        "''first warning''"]
    by blast
  have b: "validation_status (add_warning (add_error ValidationResult ''first error'') ''late warning'')
       = validation_status (add_error ValidationResult ''first error'')
     \<and> validation_status (add_error ValidationResult ''first error'') = ''failed''
     \<and> status_matches_lists
        (run_calls [AddWarning ''first warning'', AddError ''first error'',
                    AddWarning ''late warning''])
     \<and> status_matches_lists
        (validate_all two_decimals
           \<lparr> ocr_confidence_threshold_document = 0.75, ocr_confidence_threshold_metric = 0.70 \<rparr>
           [metric ''revenue'' 1000000, metric ''cogs'' 600000]
           \<lparr> ocr_confidence_avg = Some 0.9 \<rparr>)"
    using q status_follows_lists [of
        "[AddWarning ''first warning'', AddError ''first error'', AddWarning ''late warning'']"
        two_decimals
        "\<lparr> ocr_confidence_threshold_document = 0.75, ocr_confidence_threshold_metric = 0.70 \<rparr>"
        "[metric ''revenue'' 1000000, metric ''cogs'' 600000]"
        "\<lparr> ocr_confidence_avg = Some 0.9 \<rparr>"
        "add_error ValidationResult ''first error''" "''first error''" "''late warning''"]
    by (simp add: add_error_def)
  from p q a b show ?thesis by blast
qed

section \<open>Properties of range validation\<close>

lemma range_step_keeps:
  "status_matches_lists r \<Longrightarrow> status_matches_lists (range_step fmt r m)"
  by (simp add: range_step_def Let_def add_error_keeps add_warning_keeps split: option.splits prod.splits)

lemma range_step_errors_mono:
  "e \<in> set (errors r) \<Longrightarrow> e \<in> set (errors (range_step fmt r m))"
  by (simp add: range_step_def Let_def errors_add_error errors_add_warning split: option.splits prod.splits)

lemma range_step_revenue:
  "metric_type m = ''revenue'' \<Longrightarrow> metric_value m \<le> 0 \<Longrightarrow>
     str_opt (metric_name m) @ '': Revenue must be positive (got ''
       @ fmt '',.2f'' (metric_value m) @ ''). ''
       @ ''Negative or zero revenue indicates extraction error.'' \<in> set (errors (range_step fmt r m))"
  by (simp add: range_step_def VALUE_RANGES_def Let_def errors_add_error errors_add_warning)

lemma foldl_range_keeps:
  "status_matches_lists r \<Longrightarrow> status_matches_lists (foldl (range_step fmt) r ms)"
  by (induction ms arbitrary: r) (simp_all add: range_step_keeps)

lemma foldl_range_errors_mono:
  "e \<in> set (errors r) \<Longrightarrow> e \<in> set (errors (foldl (range_step fmt) r ms))"
  by (induction ms arbitrary: r) (simp_all add: range_step_errors_mono)

lemma foldl_range_revenue:
  assumes "m \<in> set ms" "metric_type m = ''revenue''" "metric_value m \<le> 0"
  shows "str_opt (metric_name m) @ '': Revenue must be positive (got ''
       @ fmt '',.2f'' (metric_value m) @ ''). ''
       @ ''Negative or zero revenue indicates extraction error.''
     \<in> set (errors (foldl (range_step fmt) r ms))" (is "?msg \<in> _")
  using assms(1)
proof (induction ms arbitrary: r)
  case Nil
  then show ?case by simp
next
  case (Cons a ms)
  show ?case
  proof (cases "m = a")
    case True
    have "?msg \<in> set (errors (range_step fmt r m))"
      using assms(2,3) by (rule range_step_revenue)
    then have "?msg \<in> set (errors (foldl (range_step fmt) (range_step fmt r m) ms))"
      by (rule foldl_range_errors_mono)
    then show ?thesis unfolding True foldl_Cons .
  next
    case False
    with Cons.prems have "m \<in> set ms" by simp
    then have "?msg \<in> set (errors (foldl (range_step fmt) (range_step fmt r a) ms))"
      by (rule Cons.IH)
    then show ?thesis unfolding foldl_Cons .
  qed
qed

lemma must_be_positive_in:
  "sublist ''must be positive'' (n @ '': Revenue must be positive (got '' @ rest)"
proof -
  have "n @ '': Revenue must be positive (got '' @ rest
        = (n @ '': Revenue '') @ ''must be positive'' @ ('' (got '' @ rest)"
    by simp
  then show ?thesis unfolding sublist_def by blast
qed


text \<open>
  Claim C8. For every metric of type \<open>revenue\<close> with a value of at most 0 in the list,
  range validation adds an error, so that the status of the result is \<open>failed\<close>, and
  an error of the result contains the text "must be positive"; in particular for the
  single metric of type \<open>revenue\<close> with the value -100.
\<close>

theorem nonpositive_revenue_fails:
  "(m \<in> set metrics \<and> metric_type m = ''revenue'' \<and> metric_value m \<le> 0 \<longrightarrow>
      validation_status (validate_ranges fmt metrics) = ''failed''
      \<and> (\<exists>e \<in> set (errors (validate_ranges fmt metrics)). sublist ''must be positive'' e))
   \<and> validation_status (validate_ranges fmt
        [\<lparr> metric_type = ''revenue'', metric_name = n, metric_value = - 100,
           confidence_score = c \<rparr>]) = ''failed''
   \<and> (\<exists>e \<in> set (errors (validate_ranges fmt
        [\<lparr> metric_type = ''revenue'', metric_name = n, metric_value = - 100,
           confidence_score = c \<rparr>])). sublist ''must be positive'' e)"
proof -
  have gen: "validation_status (validate_ranges fmt ms) = ''failed''
      \<and> (\<exists>e \<in> set (errors (validate_ranges fmt ms)). sublist ''must be positive'' e)"
    if "m \<in> set ms" "metric_type m = ''revenue''" "metric_value m \<le> 0" for m ms
  proof -
    let ?r = "validate_ranges fmt ms"
    have mem: "str_opt (metric_name m) @ '': Revenue must be positive (got ''
       @ fmt '',.2f'' (metric_value m) @ ''). ''
       @ ''Negative or zero revenue indicates extraction error.'' \<in> set (errors ?r)"
      unfolding validate_ranges_def using that by (rule foldl_range_revenue)
    then have ne: "errors ?r \<noteq> []" by auto
    have "status_matches_lists ?r"
      unfolding validate_ranges_def by (rule foldl_range_keeps [OF fresh_matches])
    with ne have "validation_status ?r = ''failed''"
      by (simp add: status_matches_lists_def)
    moreover have "\<exists>e \<in> set (errors ?r). sublist ''must be positive'' e"
      using mem must_be_positive_in by blast
    ultimately show ?thesis by simp
  qed
  show ?thesis
    using gen [of m metrics]
      gen [of "\<lparr> metric_type = ''revenue'', metric_name = n, metric_value = - 100,
           confidence_score = c \<rparr>" "[\<lparr> metric_type = ''revenue'', metric_name = n, metric_value = - 100,
           confidence_score = c \<rparr>]"]
    by simp
qed

theorem nonpositive_revenue_fails_witness:
  "metric ''revenue'' 0 \<in> set [metric ''cogs'' 5000, metric ''revenue'' 0]
   \<and> metric_type (metric ''revenue'' 0) = ''revenue''
   \<and> metric_value (metric ''revenue'' 0) \<le> 0
   \<and> validation_status (validate_ranges two_decimals
         [metric ''cogs'' 5000, metric ''revenue'' 0]) = ''failed''
   \<and> (\<exists>e \<in> set (errors (validate_ranges two_decimals
         [metric ''cogs'' 5000, metric ''revenue'' 0])). sublist ''must be positive'' e)"
proof -
  have h: "metric ''revenue'' 0 \<in> set [metric ''cogs'' 5000, metric ''revenue'' 0]
      \<and> metric_type (metric ''revenue'' 0) = ''revenue''
      \<and> metric_value (metric ''revenue'' 0) \<le> 0"
    by (simp add: metric_def)
  show ?thesis
    using h nonpositive_revenue_fails [of "metric ''revenue'' 0"
        "[metric ''cogs'' 5000, metric ''revenue'' 0]" two_decimals None None]
    by blast
qed


section \<open>Properties of the floating-point operations\<close>

text \<open>The doubles of the numbers used in the closed instances.\<close>

lemmas fl_eval = fl_def exponent_def halvings.simps doublings.simps pow2_def
  round_half_even_def Let_def

lemma fl_hundredth: "fl (1 / 100) = 5764607523034235 / 2 ^ 59"
  by (simp add: fl_eval)

lemma double_exact:
  "fl x = x \<Longrightarrow> \<bar>x\<bar> < 2 ^ 1024 \<Longrightarrow> double x = Fin x"
  by (simp add: double_def)

lemma double_400000: "double 400000 = Fin 400000"
  by (rule double_exact) (simp_all add: fl_eval)

lemma double_50000: "double 50000 = Fin 50000"
  by (rule double_exact) (simp_all add: fl_eval)

lemma double_0: "double 0 = Fin 0"
  by (simp add: double_def fl_def)

lemma double_tolerance_400000: "double (400000 * fl (1 / 100)) = Fin 4000"
  by (simp add: double_def fl_hundredth) (simp add: fl_eval)

section \<open>Properties of relationship validation\<close>

lemma mismatch_in: "sublist ''mismatch'' (''Gross Profit mismatch: Expected '' @ rest)"
proof -
  have "''Gross Profit mismatch: Expected '' @ rest
        = ''Gross Profit '' @ ''mismatch'' @ ('': Expected '' @ rest)"
    by simp
  then show ?thesis unfolding sublist_def by blast
qed

lemma relationships_warnings:
  assumes "metric_lookup metrics ''revenue'' = Some rv"
    and "metric_lookup metrics ''cogs'' = Some cg"
    and "metric_lookup metrics ''gross_profit'' = Some gp"
  shows "warnings (validate_relationships fmt metrics) =
     (if fgt (fabs (fsub (Fin gp) (fsub (Fin rv) (Fin cg))))
           (fmax (fmul (fabs (fsub (Fin rv) (Fin cg))) (fl 0.01)) (Fin 1000))
      then [''Gross Profit mismatch: Expected ''
              @ (fmt_float fmt '',.2f'' (fsub (Fin rv) (Fin cg))
              @ '' (Revenue '' @ fmt '',.2f'' rv
              @ '' - COGS '' @ fmt '',.2f'' cg @ ''), ''
              @ ''but got '' @ fmt '',.2f'' gp @ ''. ''
              @ ''Verify extraction accuracy.'')]
      else [])"
  using assms
  by (simp add: validate_relationships_def Let_def warnings_add_error warnings_add_warning
        ValidationResult_def del: fsub.simps fmul.simps fgt.simps fabs.simps)

lemma relationships_errors:
  assumes "metric_lookup metrics ''revenue'' = Some rv"
    and "metric_lookup metrics ''cogs'' = Some cg"
    and "metric_lookup metrics ''gross_profit'' = Some gp"
  shows "length (errors (validate_relationships fmt metrics)) =
     (if rv > cg \<and> gp \<le> 0 then 1 else 0)"
  using assms
  by (simp add: validate_relationships_def Let_def errors_add_error errors_add_warning
        ValidationResult_def del: fsub.simps fmul.simps fgt.simps fabs.simps)

lemma relationships_keeps: "status_matches_lists (validate_relationships fmt metrics)"
  by (simp add: validate_relationships_def Let_def add_error_keeps add_warning_keeps fresh_matches
        del: fsub.simps fmul.simps fgt.simps fabs.simps)

lemma mismatch_warned:
  assumes "metric_lookup metrics ''revenue'' = Some rv"
    and "metric_lookup metrics ''cogs'' = Some cg"
    and "metric_lookup metrics ''gross_profit'' = Some gp"
  shows "(\<exists>w \<in> set (warnings (validate_relationships fmt metrics)). sublist ''mismatch'' w)
     = fgt (fabs (fsub (Fin gp) (fsub (Fin rv) (Fin cg))))
           (fmax (fmul (fabs (fsub (Fin rv) (Fin cg))) (fl 0.01)) (Fin 1000))"
  unfolding relationships_warnings [OF assms]
  using mismatch_in by (simp del: fsub.simps fmul.simps fgt.simps fabs.simps)

lemma fl_revenue: "fl 1987205.21 = 2133745346847703 / 2 ^ 30"
  by (simp add: fl_eval)

lemma fl_cogs: "fl 125976.21 = 8657019232384451 / 2 ^ 36"
  by (simp add: fl_eval)

lemma fl_gross_profit: "fl 1842616.71 = 1978494627128279 / 2 ^ 30"
  by (simp add: fl_eval)

lemma boundary_expected:
  "fsub (Fin (fl 1987205.21)) (Fin (fl 125976.21)) = Fin 1861229"
  by (simp add: double_def fl_eval)

lemma boundary_tolerance:
  "fmul (Fin \<bar>1861229\<bar>) (fl 0.01) = Fin (2558053659317371 / 2 ^ 37)"
  by (simp add: double_def fl_eval)

lemma boundary_difference:
  "fsub (Fin (fl 1842616.71)) (Fin 1861229) = Fin (- (19984794213417 / 2 ^ 30))"
  by (simp add: double_def fl_eval)

lemma boundary_warns:
  "fgt (fabs (fsub (Fin (fl 1842616.71)) (fsub (Fin (fl 1987205.21)) (Fin (fl 125976.21)))))
     (fmax (fmul (fabs (fsub (Fin (fl 1987205.21)) (Fin (fl 125976.21)))) (fl 0.01)) (Fin 1000))"
  unfolding boundary_expected fabs.simps boundary_tolerance boundary_difference fmax_def
  by simp

lemma boundary_exact:
  "\<not> \<bar>fl 1842616.71 - (fl 1987205.21 - fl 125976.21)\<bar>
       > max (0.01 * \<bar>fl 1987205.21 - fl 125976.21\<bar>) 1000"
  unfolding fl_revenue fl_cogs fl_gross_profit by simp

lemma boundary_lookup:
  "metric_lookup [metric ''revenue'' (fl 1987205.21), metric ''cogs'' (fl 125976.21),
       metric ''gross_profit'' (fl 1842616.71)] ''revenue'' = Some (fl 1987205.21)"
  "metric_lookup [metric ''revenue'' (fl 1987205.21), metric ''cogs'' (fl 125976.21),
       metric ''gross_profit'' (fl 1842616.71)] ''cogs'' = Some (fl 125976.21)"
  "metric_lookup [metric ''revenue'' (fl 1987205.21), metric ''cogs'' (fl 125976.21),
       metric ''gross_profit'' (fl 1842616.71)] ''gross_profit'' = Some (fl 1842616.71)"
  by (simp_all add: metric_lookup_def metric_def)

text \<open>
  Claim C5, as stated, fails: the mismatch warning is decided by float arithmetic, not
  by the inequality over the numbers. For the floats 1987205.21, 125976.21 and
  1842616.71 (revenue, cogs, gross profit) the inequality
  \<open>|gp - (rev - cogs)| > max (0.01 * |rev - cogs|) 1000\<close> is false, over the three floats
  and over the three decimals alike, and the mismatch warning is emitted: the float
  difference is 18612.290000000037, above the float tolerance 18612.29.
\<close>

theorem mismatch_at_rounding_boundary_counterexample:
  "(\<exists>w \<in> set (warnings (validate_relationships two_decimals
        [metric ''revenue'' (fl 1987205.21), metric ''cogs'' (fl 125976.21),
         metric ''gross_profit'' (fl 1842616.71)])). sublist ''mismatch'' w)
   \<and> \<not> \<bar>fl 1842616.71 - (fl 1987205.21 - fl 125976.21)\<bar>
         > max (0.01 * \<bar>fl 1987205.21 - fl 125976.21\<bar>) 1000
   \<and> \<not> \<bar>1842616.71 - (1987205.21 - 125976.21)\<bar>
         > max (0.01 * \<bar>1987205.21 - 125976.21\<bar>) (1000 :: real)"
proof -
  have a: "\<exists>w \<in> set (warnings (validate_relationships two_decimals
        [metric ''revenue'' (fl 1987205.21), metric ''cogs'' (fl 125976.21),
         metric ''gross_profit'' (fl 1842616.71)])). sublist ''mismatch'' w"
    unfolding mismatch_warned [OF boundary_lookup] by (rule boundary_warns)
  have c: "\<not> \<bar>1842616.71 - (1987205.21 - 125976.21)\<bar>
         > max (0.01 * \<bar>1987205.21 - 125976.21\<bar>) (1000 :: real)"
    by simp
  from a boundary_exact c show ?thesis by blast
qed

lemma exact_example_quiet:
  "\<not> fgt (fabs (fsub (Fin 400000) (fsub (Fin 1000000) (Fin 600000))))
       (fmax (fmul (fabs (fsub (Fin 1000000) (Fin 600000))) (fl 0.01)) (Fin 1000))"
  by (simp add: double_def fmax_def fl_eval)

lemma off_example_warns:
  "fgt (fabs (fsub (Fin 450000) (fsub (Fin 1000000) (Fin 600000))))
       (fmax (fmul (fabs (fsub (Fin 1000000) (Fin 600000))) (fl 0.01)) (Fin 1000))"
  by (simp add: double_def fmax_def fl_eval)

lemma negative_example_warns:
  "fgt (fabs (fsub (Fin (- 10)) (fsub (Fin 500000) (Fin 200000))))
       (fmax (fmul (fabs (fsub (Fin 500000) (Fin 200000))) (fl 0.01)) (Fin 1000))"
  by (simp add: double_def fmax_def fl_eval)

text \<open>
  Claim C5, amended. When the metrics give a revenue, a cogs and a gross profit,
  relationship validation emits a mismatch warning exactly when, in float arithmetic
  (every operation rounded to the nearest double), the absolute difference of the
  gross profit and \<open>revenue - cogs\<close> is greater than the larger of
  \<open>|revenue - cogs| * 0.01\<close> and 1000; and when revenue exceeds cogs and the gross
  profit is at most 0 it emits an error. Revenue 1,000,000, cogs 600,000 and gross
  profit 400,000 give no warning; with gross profit 450,000 there is exactly one
  warning, a mismatch warning, and the status is \<open>flagged\<close>.
\<close>

theorem gross_profit_relationship:
  "(metric_lookup metrics ''revenue'' = Some rv
      \<and> metric_lookup metrics ''cogs'' = Some cg
      \<and> metric_lookup metrics ''gross_profit'' = Some gp \<longrightarrow>
      ((\<exists>w \<in> set (warnings (validate_relationships fmt metrics)). sublist ''mismatch'' w)
         = fgt (fabs (fsub (Fin gp) (fsub (Fin rv) (Fin cg))))
             (fmax (fmul (fabs (fsub (Fin rv) (Fin cg))) (fl 0.01)) (Fin 1000)))
      \<and> (rv > cg \<and> gp \<le> 0 \<longrightarrow> errors (validate_relationships fmt metrics) \<noteq> []))
   \<and> warnings (validate_relationships fmt
        [\<lparr> metric_type = ''revenue'', metric_name = n1, metric_value = 1000000, confidence_score = c1 \<rparr>,
         \<lparr> metric_type = ''cogs'', metric_name = n2, metric_value = 600000, confidence_score = c2 \<rparr>,
         \<lparr> metric_type = ''gross_profit'', metric_name = n3, metric_value = 400000, confidence_score = c3 \<rparr>]) = []
   \<and> length (warnings (validate_relationships fmt
        [\<lparr> metric_type = ''revenue'', metric_name = n1, metric_value = 1000000, confidence_score = c1 \<rparr>,
         \<lparr> metric_type = ''cogs'', metric_name = n2, metric_value = 600000, confidence_score = c2 \<rparr>,
         \<lparr> metric_type = ''gross_profit'', metric_name = n3, metric_value = 450000, confidence_score = c3 \<rparr>])) = 1
   \<and> sublist ''mismatch'' (hd (warnings (validate_relationships fmt
        [\<lparr> metric_type = ''revenue'', metric_name = n1, metric_value = 1000000, confidence_score = c1 \<rparr>,
         \<lparr> metric_type = ''cogs'', metric_name = n2, metric_value = 600000, confidence_score = c2 \<rparr>,
         \<lparr> metric_type = ''gross_profit'', metric_name = n3, metric_value = 450000, confidence_score = c3 \<rparr>])))
   \<and> validation_status (validate_relationships fmt
        [\<lparr> metric_type = ''revenue'', metric_name = n1, metric_value = 1000000, confidence_score = c1 \<rparr>,
         \<lparr> metric_type = ''cogs'', metric_name = n2, metric_value = 600000, confidence_score = c2 \<rparr>,
         \<lparr> metric_type = ''gross_profit'', metric_name = n3, metric_value = 450000, confidence_score = c3 \<rparr>]) = ''flagged''"
  (is "?general \<and> ?none \<and> ?one \<and> ?text \<and> ?flagged")
proof -
  have general: ?general
  proof (intro impI, elim conjE)
    assume l: "metric_lookup metrics ''revenue'' = Some rv"
      "metric_lookup metrics ''cogs'' = Some cg"
      "metric_lookup metrics ''gross_profit'' = Some gp"
    have e: "rv > cg \<and> gp \<le> 0 \<longrightarrow> errors (validate_relationships fmt metrics) \<noteq> []"
      using relationships_errors [OF l, of fmt] by auto
    from mismatch_warned [OF l, of fmt] e
    show "((\<exists>w \<in> set (warnings (validate_relationships fmt metrics)). sublist ''mismatch'' w)
         = fgt (fabs (fsub (Fin gp) (fsub (Fin rv) (Fin cg))))
             (fmax (fmul (fabs (fsub (Fin rv) (Fin cg))) (fl 0.01)) (Fin 1000)))
      \<and> (rv > cg \<and> gp \<le> 0 \<longrightarrow> errors (validate_relationships fmt metrics) \<noteq> [])"
      by blast
  qed
  let ?ok = "[\<lparr> metric_type = ''revenue'', metric_name = n1, metric_value = 1000000, confidence_score = c1 \<rparr>,
         \<lparr> metric_type = ''cogs'', metric_name = n2, metric_value = 600000, confidence_score = c2 \<rparr>,
         \<lparr> metric_type = ''gross_profit'', metric_name = n3, metric_value = 400000, confidence_score = c3 \<rparr>]"
  let ?off = "[\<lparr> metric_type = ''revenue'', metric_name = n1, metric_value = 1000000, confidence_score = c1 \<rparr>,
         \<lparr> metric_type = ''cogs'', metric_name = n2, metric_value = 600000, confidence_score = c2 \<rparr>,
         \<lparr> metric_type = ''gross_profit'', metric_name = n3, metric_value = 450000, confidence_score = c3 \<rparr>]"
  have ok: "metric_lookup ?ok ''revenue'' = Some 1000000"
    "metric_lookup ?ok ''cogs'' = Some 600000"
    "metric_lookup ?ok ''gross_profit'' = Some 400000"
    by (simp_all add: metric_lookup_def)
  have off: "metric_lookup ?off ''revenue'' = Some 1000000"
    "metric_lookup ?off ''cogs'' = Some 600000"
    "metric_lookup ?off ''gross_profit'' = Some 450000"
    by (simp_all add: metric_lookup_def)
  have none: ?none
    unfolding relationships_warnings [OF ok] using exact_example_quiet by (rule if_not_P)
  have w: "warnings (validate_relationships fmt ?off) =
      [''Gross Profit mismatch: Expected ''
              @ (fmt_float fmt '',.2f'' (fsub (Fin 1000000) (Fin 600000))
              @ '' (Revenue '' @ fmt '',.2f'' 1000000
              @ '' - COGS '' @ fmt '',.2f'' 600000 @ ''), ''
              @ ''but got '' @ fmt '',.2f'' 450000 @ ''. ''
              @ ''Verify extraction accuracy.'')]"
    unfolding relationships_warnings [OF off] using off_example_warns by (rule if_P)
  have one: ?one unfolding w by simp
  have mm: ?text unfolding w list.sel by (rule mismatch_in)
  have "errors (validate_relationships fmt ?off) = []"
    using relationships_errors [OF off, of fmt] by simp
  moreover have "warnings (validate_relationships fmt ?off) \<noteq> []"
    unfolding w by simp
  ultimately have flagged: ?flagged
    using relationships_keeps [of fmt ?off] by (simp add: status_matches_lists_def)
  from general none one mm flagged show ?thesis by blast
qed

theorem gross_profit_relationship_witness:
  "metric_lookup [metric ''revenue'' 500000, metric ''cogs'' 200000,
        metric ''gross_profit'' (- 10)] ''revenue'' = Some 500000
   \<and> metric_lookup [metric ''revenue'' 500000, metric ''cogs'' 200000,
        metric ''gross_profit'' (- 10)] ''cogs'' = Some 200000
   \<and> metric_lookup [metric ''revenue'' 500000, metric ''cogs'' 200000,
        metric ''gross_profit'' (- 10)] ''gross_profit'' = Some (- 10)
   \<and> (\<exists>w \<in> set (warnings (validate_relationships two_decimals
        [metric ''revenue'' 500000, metric ''cogs'' 200000, metric ''gross_profit'' (- 10)])).
        sublist ''mismatch'' w)
   \<and> errors (validate_relationships two_decimals
        [metric ''revenue'' 500000, metric ''cogs'' 200000, metric ''gross_profit'' (- 10)])
       \<noteq> []"
proof -
  have h: "metric_lookup [metric ''revenue'' 500000, metric ''cogs'' 200000,
        metric ''gross_profit'' (- 10)] ''revenue'' = Some 500000
   \<and> metric_lookup [metric ''revenue'' 500000, metric ''cogs'' 200000,
        metric ''gross_profit'' (- 10)] ''cogs'' = Some 200000
   \<and> metric_lookup [metric ''revenue'' 500000, metric ''cogs'' 200000,
        metric ''gross_profit'' (- 10)] ''gross_profit'' = Some (- 10)"
    by (simp add: metric_lookup_def metric_def)
  have g: "(500000 :: real) > 200000 \<and> (- 10 :: real) \<le> 0"
    by simp
  show ?thesis
    using h negative_example_warns g gross_profit_relationship [of
        "[metric ''revenue'' 500000, metric ''cogs'' 200000, metric ''gross_profit'' (- 10)]"
        500000 200000 "- 10" two_decimals None None None None None None]
    by blast
qed

section \<open>Properties of the review flag\<close>

text \<open>
  Claim C9. For every confidence and every two document thresholds,
  \<open>should_flag_for_review\<close> gives the same answer, namely whether the confidence is
  below the metric threshold: the decision does not depend on the document threshold.
\<close>

theorem flag_ignores_document_threshold:
  "should_flag_for_review confidence d1 metric_threshold
     = should_flag_for_review confidence d2 metric_threshold
   \<and> should_flag_for_review confidence d1 metric_threshold = (confidence < metric_threshold)"
  by (simp add: should_flag_for_review_def)

section \<open>Properties of retry eligibility\<close>









section \<open>Properties of the number parser\<close>

subsection \<open>Strings and digits\<close>

lemma strip_id: "s \<noteq> [] \<Longrightarrow> \<not> is_space (hd s) \<Longrightarrow> \<not> is_space (last s) \<Longrightarrow> strip s = s"
proof -
  assume s: "s \<noteq> []" and h: "\<not> is_space (hd s)" and l: "\<not> is_space (last s)"
  from h have a: "dropWhile is_space s = s"
    by (simp add: dropWhile_eq_self_iff)
  from l have "dropWhile is_space (rev s) = rev s"
    by (simp add: dropWhile_eq_self_iff hd_rev)
  with a show ?thesis by (simp add: strip_def)
qed

lemma py_replace_absent:
  assumes "x \<in> set old" "x \<notin> set s"
  shows "py_replace old new count s = s"
  using assms(2)
proof (induction s)
  case Nil
  from assms(1) have "old \<noteq> []" by auto
  then show ?case by (subst py_replace.simps) simp
next
  case (Cons a s)
  from assms(1) have ne: "old \<noteq> []" by auto
  have np: "\<not> prefix old (a # s)"
  proof
    assume "prefix old (a # s)"
    then have "set old \<subseteq> set (a # s)" by (rule set_mono_prefix)
    with assms(1) Cons.prems show False by auto
  qed
  from Cons have ih: "py_replace old new count s = s" by simp
  show ?case
    by (subst py_replace.simps) (simp add: ne np ih)
qed

lemma not_sublist_absent: "x \<in> set sy \<Longrightarrow> x \<notin> set s \<Longrightarrow> \<not> sublist sy s"
  using set_mono_sublist by fastforce

lemma upper_id: "\<forall>c \<in> set s. \<not> (97 \<le> c \<and> c \<le> 122) \<Longrightarrow> upper s = s"
  by (auto simp: upper_def upper_cp_def intro!: map_idI)

lemma of_char_digit_char: "d < 10 \<Longrightarrow> of_char (digit_char d) = (48 + d :: nat)"
proof -
  assume "d < 10"
  then have "d = 0 \<or> d = 1 \<or> d = 2 \<or> d = 3 \<or> d = 4 \<or> d = 5 \<or> d = 6
      \<or> d = 7 \<or> d = 8 \<or> d = 9"
    by arith
  then show ?thesis
    by (elim disjE) (simp_all add: digit_char_def)
qed

lemma digits_value_snoc: "digits_value (xs @ [y]) = 10 * digits_value xs + y"
  by (simp add: digits_value_def)

lemma digits_value_append:
  "digits_value (xs @ ys) = digits_value xs * 10 ^ length ys + digits_value ys"
proof (induction ys rule: rev_induct)
  case Nil
  then show ?case by (simp add: digits_value_def)
next
  case (snoc y ys)
  have "digits_value (xs @ ys @ [y]) = 10 * digits_value (xs @ ys) + y"
    using digits_value_snoc [of "xs @ ys" y] by simp
  also have "\<dots> = 10 * (digits_value xs * 10 ^ length ys + digits_value ys) + y"
    by (simp add: snoc.IH)
  also have "\<dots> = digits_value xs * 10 ^ length (ys @ [y]) + digits_value (ys @ [y])"
    by (simp add: digits_value_snoc algebra_simps)
  finally show ?case .
qed

lemma digits_value_zeros: "digits_value (replicate m 0 @ xs) = digits_value xs"
  by (induction m) (simp_all add: digits_value_def)

lemma str_nat_digits: "\<forall>c \<in> set (ustr (str_nat n)). ascii_digit c"
proof (induction n rule: str_nat.induct)
  case (1 n)
  show ?case
  proof (cases "n < 10")
    case True
    then show ?thesis
      by (subst str_nat.simps) (simp add: ustr_def of_char_digit_char ascii_digit_def)
  next
    case False
    with 1 have "\<forall>c \<in> set (ustr (str_nat (n div 10))). ascii_digit c" by simp
    moreover have "n mod 10 < 10" by simp
    ultimately show ?thesis using False
      by (subst str_nat.simps) (simp add: ustr_def of_char_digit_char ascii_digit_def)
  qed
qed

lemma str_nat_nonempty: "str_nat n \<noteq> []"
  by (subst str_nat.simps) simp

lemma str_nat_value: "digits_value (map (\<lambda>c. c - 48) (ustr (str_nat n))) = n"
proof (induction n rule: str_nat.induct)
  case (1 n)
  show ?case
  proof (cases "n < 10")
    case True
    then show ?thesis
      by (subst str_nat.simps) (simp add: ustr_def of_char_digit_char digits_value_def)
  next
    case False
    with 1 have ih: "digits_value (map (\<lambda>c. c - 48) (ustr (str_nat (n div 10)))) = n div 10"
      by simp
    have m: "n mod 10 < 10" by simp
    have "digits_value (map (\<lambda>c. c - 48) (ustr (str_nat n)))
        = digits_value (map (\<lambda>c. c - 48) (ustr (str_nat (n div 10))) @ [n mod 10])"
      using False by (subst str_nat.simps) (simp add: ustr_def of_char_digit_char [OF m])
    also have "\<dots> = 10 * (n div 10) + n mod 10"
      by (simp only: digits_value_snoc ih)
    finally show ?thesis by simp
  qed
qed

lemma str_nat_length: "0 < d \<Longrightarrow> n < 10 ^ d \<Longrightarrow> length (str_nat n) \<le> d"
proof (induction n arbitrary: d rule: str_nat.induct)
  case (1 n)
  show ?case
  proof (cases "n < 10")
    case True
    with "1.prems" show ?thesis by (subst str_nat.simps) simp
  next
    case False
    from False "1.prems" have d2: "1 < d"
      by (cases "d = 1") auto
    then obtain d' where d': "d = Suc d'" "0 < d'" by (cases d) auto
    with "1.prems" have "n div 10 < 10 ^ d'"
      by (simp add: less_mult_imp_div_less mult.commute)
    with 1(1) [OF False d'(2)] have "length (str_nat (n div 10)) \<le> d'" by simp
    with False d' show ?thesis by (subst str_nat.simps) simp
  qed
qed

subsection \<open>Reading floats\<close>

lemma digit_of_low:
  "c < 0x660 \<Longrightarrow> digit_of c = (if 48 \<le> c \<and> c \<le> 57 then Some (c - 48) else None)"
  by (simp add: digit_of_def DECIMAL_ZEROS_def)

lemma digit_of_ascii: "ascii_digit c \<Longrightarrow> digit_of c = Some (c - 48)"
  by (simp add: digit_of_low ascii_digit_def)

lemma digits_more_digits:
  assumes "\<forall>c \<in> set ds. ascii_digit c"
    and "rest = [] \<or> (digit_of (hd rest) = None \<and> hd rest \<noteq> 95)"
  shows "digits_more (ds @ rest) = (map (\<lambda>c. c - 48) ds, rest)"
  using assms(1)
proof (induction ds)
  case Nil
  show ?case using assms(2) by (cases rest rule: digits_more.cases) auto
next
  case (Cons a ds)
  then have a: "digit_of a = Some (a - 48)"
    and ih: "digits_more (ds @ rest) = (map (\<lambda>c. c - 48) ds, rest)"
    by (simp_all add: digit_of_ascii)
  show ?case
  proof (cases "ds @ rest")
    case Nil
    with a show ?thesis by simp
  next
    case (Cons x xs)
    with a ih show ?thesis by simp
  qed
qed

lemma digitpart_digits:
  assumes "\<forall>c \<in> set ds. ascii_digit c" and "ds \<noteq> []"
    and "rest = [] \<or> (digit_of (hd rest) = None \<and> hd rest \<noteq> 95)"
  shows "digitpart (ds @ rest) = (map (\<lambda>c. c - 48) ds, rest)"
proof (cases ds)
  case Nil
  with assms(2) show ?thesis by simp
next
  case (Cons a as)
  with assms(1) have "digit_of a = Some (a - 48)" "\<forall>c \<in> set as. ascii_digit c"
    by (simp_all add: digit_of_ascii)
  with Cons digits_more_digits [OF this(2) assms(3)] show ?thesis by simp
qed

lemma read_number_integer:
  assumes "\<forall>c \<in> set ds. ascii_digit c" and "ds \<noteq> []"
  shows "read_number ds = Some (real (digits_value (map (\<lambda>c. c - 48) ds)))"
proof -
  have "digitpart ds = (map (\<lambda>c. c - 48) ds, [])"
    using digitpart_digits [OF assms, of "[]"] by simp
  with assms(2) show ?thesis by (simp add: read_number_def)
qed

lemma read_number_decimal:
  assumes "\<forall>c \<in> set ds. ascii_digit c" and "ds \<noteq> []"
    and "\<forall>c \<in> set fs. ascii_digit c" and "fs \<noteq> []"
  shows "read_number (ds @ 46 # fs)
     = Some (real (digits_value (map (\<lambda>c. c - 48) (ds @ fs))) / 10 ^ length fs)"
proof -
  have a: "digitpart (ds @ 46 # fs) = (map (\<lambda>c. c - 48) ds, 46 # fs)"
    using digitpart_digits [OF assms(1,2), of "46 # fs"] by (simp add: digit_of_low)
  have b: "digitpart fs = (map (\<lambda>c. c - 48) fs, [])"
    using digitpart_digits [OF assms(3,4), of "[]"] by simp
  from a b assms(2) show ?thesis by (simp add: read_number_def)
qed

lemma digit_not_space: "ascii_digit c \<Longrightarrow> \<not> is_space c"
  by (auto simp: ascii_digit_def is_space_def)

lemma digit_not_float_space: "ascii_digit c \<Longrightarrow> \<not> is_float_space c"
  by (auto simp: ascii_digit_def is_float_space_def)

lemma float_strip_id:
  "\<not> is_float_space (hd s) \<Longrightarrow> \<not> is_float_space (last s) \<Longrightarrow> float_strip s = s"
proof -
  assume h: "\<not> is_float_space (hd s)" and l: "\<not> is_float_space (last s)"
  from h have a: "dropWhile is_float_space s = s"
    by (simp add: dropWhile_eq_self_iff)
  from l have "dropWhile is_float_space (rev s) = rev s"
    by (simp add: dropWhile_eq_self_iff hd_rev)
  with a show ?thesis by (simp add: float_strip_def)
qed

lemma py_float_number:
  assumes "s \<noteq> []" and "ascii_digit (hd s)" and "ascii_digit (last s)"
    and "read_number s = Some x"
  shows "py_float s = Inr (double x)"
proof -
  have st: "float_strip s = s"
    using assms(2,3) by (simp add: float_strip_id digit_not_float_space)
  from assms(1) obtain c cs where s: "s = c # cs" by (cases s) auto
  with assms(2) have c: "48 \<le> c" "c \<le> 57" by (simp_all add: ascii_digit_def)
  then have sg: "read_sign s = (False, s)" using s by simp
  have lc: "lower_cp c = c" using c by (simp add: lower_cp_def)
  have "map lower_cp s \<noteq> ustr ''inf''" "map lower_cp s \<noteq> ustr ''infinity''"
    "map lower_cp s \<noteq> ustr ''nan''"
    using s c lc by (auto simp: ustr_def)
  with st sg assms(4) show ?thesis by (simp add: py_float_def Let_def)
qed

subsection \<open>Decimal renderings\<close>

lemma ustr_append: "ustr (a @ b) = ustr a @ ustr b"
  by (simp add: ustr_def)

lemma ustr_zeros: "ustr (replicate m CHR ''0'') = replicate m 48"
  by (simp add: ustr_def)

lemma render_decimal_parts:
  "0 < d \<Longrightarrow> ustr (render_decimal k d)
     = ustr (str_nat (k div 10 ^ d))
       @ 46 # (replicate (d - length (str_nat (k mod 10 ^ d))) 48 @ ustr (str_nat (k mod 10 ^ d)))"
  by (simp add: render_decimal_def ustr_append ustr_zeros) (simp add: ustr_def)

lemma fraction_digits:
  assumes "0 < d" and "r < 10 ^ d"
  defines "fs \<equiv> replicate (d - length (str_nat r)) 48 @ ustr (str_nat r)"
  shows "\<forall>c \<in> set fs. ascii_digit c" and "fs \<noteq> []" and "length fs = d"
    and "digits_value (map (\<lambda>c. c - 48) fs) = r"
proof -
  show "\<forall>c \<in> set fs. ascii_digit c"
    using str_nat_digits [of r] by (auto simp: fs_def ascii_digit_def)
  show "fs \<noteq> []"
    using str_nat_nonempty [of r] by (simp add: fs_def ustr_def)
  show "length fs = d"
    using str_nat_length [OF assms(1,2)] by (simp add: fs_def ustr_def)
  have "map (\<lambda>c. c - 48) fs
      = replicate (d - length (str_nat r)) 0 @ map (\<lambda>c. c - 48) (ustr (str_nat r))"
    by (simp add: fs_def)
  then show "digits_value (map (\<lambda>c. c - 48) fs) = r"
    by (simp only: digits_value_zeros str_nat_value)
qed

lemma render_decimal_shape:
  "ustr (render_decimal k d) \<noteq> []"
  "\<forall>c \<in> set (ustr (render_decimal k d)). ascii_digit c \<or> c = 46"
  "ascii_digit (hd (ustr (render_decimal k d)))"
  "ascii_digit (last (ustr (render_decimal k d)))"
proof -
  have ne: "ustr (str_nat n) \<noteq> []" for n
    using str_nat_nonempty [of n] by (simp add: ustr_def)
  have hd_d: "ascii_digit (hd (ustr (str_nat n)))" for n
    using str_nat_digits [of n] ne [of n] by (cases "ustr (str_nat n)") auto
  have last_d: "ascii_digit (last (ustr (str_nat n)))" for n
    using str_nat_digits [of n] ne [of n] last_in_set by blast
  show "ustr (render_decimal k d) \<noteq> []"
    by (cases "d = 0") (simp_all add: render_decimal_def ustr_append ne)
  show "\<forall>c \<in> set (ustr (render_decimal k d)). ascii_digit c \<or> c = 46"
  proof (cases "d = 0")
    case True
    then show ?thesis using str_nat_digits [of k] by (simp add: render_decimal_def)
  next
    case False
    then show ?thesis
      using str_nat_digits [of "k div 10 ^ d"] str_nat_digits [of "k mod 10 ^ d"]
      by (auto simp: render_decimal_parts ascii_digit_def)
  qed
  show "ascii_digit (hd (ustr (render_decimal k d)))"
  proof (cases "d = 0")
    case True
    then show ?thesis using hd_d [of k] by (simp add: render_decimal_def)
  next
    case False
    then show ?thesis
      using hd_d [of "k div 10 ^ d"] ne [of "k div 10 ^ d"]
      by (simp add: render_decimal_parts)
  qed
  show "ascii_digit (last (ustr (render_decimal k d)))"
  proof (cases "d = 0")
    case True
    then show ?thesis using last_d [of k] by (simp add: render_decimal_def)
  next
    case False
    then show ?thesis
      using last_d [of "k mod 10 ^ d"] ne [of "k mod 10 ^ d"]
      by (simp add: render_decimal_parts)
  qed
qed

lemma read_number_render:
  "read_number (ustr (render_decimal k d)) = Some (real k / 10 ^ d)"
proof (cases "d = 0")
  case True
  have "ustr (str_nat k) \<noteq> []"
    using str_nat_nonempty [of k] by (simp add: ustr_def)
  from read_number_integer [OF str_nat_digits this] True show ?thesis
    by (simp add: render_decimal_def str_nat_value)
next
  case False
  then have d: "0 < d" by simp
  define ds where "ds = ustr (str_nat (k div 10 ^ d))"
  define fs where "fs = replicate (d - length (str_nat (k mod 10 ^ d))) 48
      @ ustr (str_nat (k mod 10 ^ d))"
  have r: "k mod 10 ^ d < 10 ^ d" by simp
  note f = fraction_digits [OF d r, folded fs_def]
  have dd: "\<forall>c \<in> set ds. ascii_digit c" "ds \<noteq> []"
    using str_nat_digits [of "k div 10 ^ d"] str_nat_nonempty [of "k div 10 ^ d"]
    by (simp_all add: ds_def ustr_def)
  have dv: "digits_value (map (\<lambda>c. c - 48) ds) = k div 10 ^ d"
    by (simp add: ds_def str_nat_value)
  have "digits_value (map (\<lambda>c. c - 48) (ds @ fs))
      = digits_value (map (\<lambda>c. c - 48) ds) * 10 ^ length (map (\<lambda>c. c - 48) fs)
        + digits_value (map (\<lambda>c. c - 48) fs)"
    by (simp only: map_append digits_value_append)
  also have "\<dots> = (k div 10 ^ d) * 10 ^ d + k mod 10 ^ d"
    by (simp add: dv f(3,4))
  also have "\<dots> = k" by (rule div_mult_mod_eq)
  finally have v: "digits_value (map (\<lambda>c. c - 48) (ds @ fs)) = k" .
  have "read_number (ds @ 46 # fs) = Some (real k / 10 ^ d)"
    unfolding read_number_decimal [OF dd f(1,2)] v f(3) ..
  then show ?thesis
    by (simp add: render_decimal_parts [OF d] ds_def fs_def)
qed

lemma py_float_render:
  "py_float (ustr (render_decimal k d)) = Inr (double (real k / 10 ^ d))"
  by (rule py_float_number [OF render_decimal_shape(1,3,4) read_number_render])

subsection \<open>The stages of the parser\<close>

lemma clean_text_stages:
  assumes "strip t0 = t1" and "detect_currency t1 = cur"
    and "foldl (\<lambda>text symbol. py_replace symbol [] None text) t1 CURRENCY_SYMBOLS = t2"
    and "strip t2 = t3" and "(prefix [40] t3 \<and> suffix [41] t3) = neg"
    and "(if neg then strip (butlast (tl t3)) else t3) = t4"
    and "magnitude_loop MAGNITUDE_MULTIPLIERS (upper t4) t4 = (m, t5)"
    and "separators t5 = t6"
  shows "clean_text t0 = (cur, neg, m, t6)"
  unfolding clean_text_def Let_def assms(1) assms(2) assms(3) assms(4) assms(5) assms(6)
    assms(7) prod.case assms(8) ..

lemma py_float_error: "py_float t = Inl e \<Longrightarrow> \<exists>msg. e = ValueError msg"
  by (auto simp: py_float_def Let_def split: prod.splits if_splits option.splits)

lemma parse_stages:
  assumes "t0 \<noteq> []" and "clean_text t0 = (cur, neg, m, t)" and "py_float t = Inr f"
  shows "parse_financial_number (PyStr t0)
     = Inr (Some (if neg then fneg (fmul f m) else fmul f m), cur)"
  using assms by (simp add: parse_financial_number_def Let_def)

lemma parse_stages_fail:
  assumes "clean_text t0 = (cur, neg, m, t)" and "py_float t = Inl e"
  shows "parse_financial_number (PyStr t0) = Inr (None, None)"
proof -
  from py_float_error [OF assms(2)] obtain msg where "e = ValueError msg" ..
  with assms show ?thesis by (simp add: parse_financial_number_def)
qed

lemma no_currency:
  assumes "\<forall>x \<in> set s. x \<notin> set [0x24, 0x20AC, 0xA3, 0xA5, 0x20B9, 85, 69, 71, 74, 73]"
  shows "detect_currency s = None"
    and "foldl (\<lambda>text symbol. py_replace symbol [] None text) s CURRENCY_SYMBOLS = s"
proof -
  have absent: "w \<notin> set s"
    if "w \<in> set [0x24, 0x20AC, 0xA3, 0xA5, 0x20B9, 85, 69, 71, 74, 73]" for w
    using assms that by blast
  have w0: "(0x24::nat) \<notin> set s"
    by (rule absent) simp
  have w1: "(0x20AC::nat) \<notin> set s"
    by (rule absent) simp
  have w2: "(0xA3::nat) \<notin> set s"
    by (rule absent) simp
  have w3: "(0xA5::nat) \<notin> set s"
    by (rule absent) simp
  have w4: "(0x20B9::nat) \<notin> set s"
    by (rule absent) simp
  have w5: "(85::nat) \<notin> set s"
    by (rule absent) simp
  have w6: "(69::nat) \<notin> set s"
    by (rule absent) simp
  have w7: "(71::nat) \<notin> set s"
    by (rule absent) simp
  have w8: "(74::nat) \<notin> set s"
    by (rule absent) simp
  have w9: "(73::nat) \<notin> set s"
    by (rule absent) simp
  have n0: "\<not> sublist [0x24] s"
    by (rule not_sublist_absent [OF _ w0]) (simp add: ustr_def)
  have n1: "\<not> sublist [0x20AC] s"
    by (rule not_sublist_absent [OF _ w1]) (simp add: ustr_def)
  have n2: "\<not> sublist [0xA3] s"
    by (rule not_sublist_absent [OF _ w2]) (simp add: ustr_def)
  have n3: "\<not> sublist [0xA5] s"
    by (rule not_sublist_absent [OF _ w3]) (simp add: ustr_def)
  have n4: "\<not> sublist [0x20B9] s"
    by (rule not_sublist_absent [OF _ w4]) (simp add: ustr_def)
  have n5: "\<not> sublist (ustr ''USD'') s"
    by (rule not_sublist_absent [OF _ w5]) (simp add: ustr_def)
  have n6: "\<not> sublist (ustr ''EUR'') s"
    by (rule not_sublist_absent [OF _ w6]) (simp add: ustr_def)
  have n7: "\<not> sublist (ustr ''GBP'') s"
    by (rule not_sublist_absent [OF _ w7]) (simp add: ustr_def)
  have n8: "\<not> sublist (ustr ''JPY'') s"
    by (rule not_sublist_absent [OF _ w8]) (simp add: ustr_def)
  have n9: "\<not> sublist (ustr ''INR'') s"
    by (rule not_sublist_absent [OF _ w9]) (simp add: ustr_def)
  have r0: "py_replace [0x24] [] None s = s"
    by (rule py_replace_absent [OF _ w0]) (simp add: ustr_def)
  have r1: "py_replace [0x20AC] [] None s = s"
    by (rule py_replace_absent [OF _ w1]) (simp add: ustr_def)
  have r2: "py_replace [0xA3] [] None s = s"
    by (rule py_replace_absent [OF _ w2]) (simp add: ustr_def)
  have r3: "py_replace [0xA5] [] None s = s"
    by (rule py_replace_absent [OF _ w3]) (simp add: ustr_def)
  have r4: "py_replace [0x20B9] [] None s = s"
    by (rule py_replace_absent [OF _ w4]) (simp add: ustr_def)
  have r5: "py_replace (ustr ''USD'') [] None s = s"
    by (rule py_replace_absent [OF _ w5]) (simp add: ustr_def)
  have r6: "py_replace (ustr ''EUR'') [] None s = s"
    by (rule py_replace_absent [OF _ w6]) (simp add: ustr_def)
  have r7: "py_replace (ustr ''GBP'') [] None s = s"
    by (rule py_replace_absent [OF _ w7]) (simp add: ustr_def)
  have r8: "py_replace (ustr ''JPY'') [] None s = s"
    by (rule py_replace_absent [OF _ w8]) (simp add: ustr_def)
  have r9: "py_replace (ustr ''INR'') [] None s = s"
    by (rule py_replace_absent [OF _ w9]) (simp add: ustr_def)
  show "detect_currency s = None"
    by (simp add: detect_currency_def currency_map_def n0 n1 n2 n3 n4 n5 n6 n7 n8 n9)
  show "foldl (\<lambda>text symbol. py_replace symbol [] None text) s CURRENCY_SYMBOLS = s"
    by (simp add: CURRENCY_SYMBOLS_def r0 r1 r2 r3 r4 r5 r6 r7 r8 r9)
qed

lemma suffix_single: "suffix [x] (ys @ [y]) = (x = y)"
  using snoc_suffix_snoc [of "[]" x ys y] by simp

lemma magnitude_single:
  assumes "r \<noteq> []" and "\<forall>x \<in> set r. ascii_digit x \<or> x = 46"
    and "(c, m) \<in> set [(75, 1000), (107, 1000), (77, 1000000), (109, 1000000),
           (66, 1000000000), (98, 1000000000), (84, 1000000000000), (116, 1000000000000)]"
  shows "magnitude_loop MAGNITUDE_MULTIPLIERS (upper (r @ [c])) (r @ [c]) = (m, r)"
proof -
  have u: "upper r = r"
    using assms(2) by (intro upper_id) (auto simp: ascii_digit_def)
  have ns: "\<not> is_space x" if "x \<in> set r" for x
    using assms(2) that by (auto simp: ascii_digit_def is_space_def)
  have "hd r \<in> set r" "last r \<in> set r" using assms(1) by simp_all
  then have st: "strip r = r"
    using assms(1) ns by (intro strip_id) auto
  have up: "upper (r @ [c]) = r @ [upper_cp c]"
    using u by (simp add: upper_def)
  from assms(3) consider "c = 75" "m = 1000" | "c = 107" "m = 1000"
    | "c = 77" "m = 1000000" | "c = 109" "m = 1000000"
    | "c = 66" "m = 1000000000" | "c = 98" "m = 1000000000"
    | "c = 84" "m = 1000000000000" | "c = 116" "m = 1000000000000"
    by auto
  then show ?thesis
    unfolding up
    by cases
      (simp_all add: MAGNITUDE_MULTIPLIERS_def ustr_def upper_cp_def suffix_single st
        del: suffix_snoc)
qed

lemma separators_plain: "44 \<notin> set r \<Longrightarrow> separators r = r"
  by (simp add: separators_def Let_def)

lemma clean_text_suffixed:
  assumes "r \<noteq> []" and "\<forall>x \<in> set r. ascii_digit x \<or> x = 46" and "ascii_digit (hd r)"
    and "(c, m) \<in> set [(75, 1000), (107, 1000), (77, 1000000), (109, 1000000),
           (66, 1000000000), (98, 1000000000), (84, 1000000000000), (116, 1000000000000)]"
  shows "clean_text (r @ [c]) = (None, False, m, r)"
proof -
  let ?t = "r @ [c]"
  from assms(4) have c: "c \<in> set (ustr ''KMBTkmbt'')"
    by (auto simp: ustr_def)
  then have cs: "\<not> is_space c"
    by (auto simp: ustr_def is_space_def)
  have all: "\<forall>x \<in> set ?t. x \<notin> set [0x24, 0x20AC, 0xA3, 0xA5, 0x20B9, 85, 69, 71, 74, 73]"
    using assms(2) c by (auto simp: ascii_digit_def ustr_def)
  have hd_t: "hd ?t = hd r" using assms(1) by simp
  have s1: "strip ?t = ?t"
    using assms(3) cs by (intro strip_id) (simp_all add: hd_t digit_not_space)
  have np: "(prefix [40] ?t \<and> suffix [41] ?t) = False"
  proof -
    from assms(1) obtain a as where r: "r = a # as" by (cases r) auto
    with assms(3) have "a \<noteq> 40" by (auto simp: ascii_digit_def)
    with r show ?thesis by simp
  qed
  have sep: "separators r = r"
    using assms(2) by (intro separators_plain) (auto simp: ascii_digit_def)
  show ?thesis
    by (rule clean_text_stages [OF s1 no_currency(1) [OF all] no_currency(2) [OF all] s1 np _
          magnitude_single [OF assms(1,2,4)] sep]) simp
qed

lemma parse_result:
  "parse_financial_number arg = Inr (None, None)
   \<or> (\<exists>f c. parse_financial_number arg = Inr (Some f, c))"
proof (cases arg)
  case PyNone
  then show ?thesis by (simp add: parse_financial_number_def)
next
  case PyOther
  then show ?thesis by (simp add: parse_financial_number_def)
next
  case (PyStr t0)
  show ?thesis
  proof (cases "t0 = []")
    case True
    with PyStr show ?thesis by (simp add: parse_financial_number_def)
  next
    case False
    obtain cur neg m t where c: "clean_text t0 = (cur, neg, m, t)"
      by (cases "clean_text t0") auto
    show ?thesis
    proof (cases "py_float t")
      case (Inl e)
      from parse_stages_fail [OF c Inl] PyStr show ?thesis by simp
    next
      case (Inr f)
      from parse_stages [OF False c Inr] PyStr show ?thesis by simp
    qed
  qed
qed


lemma clean_eight_digits:
  "clean_text (ustr ''1,234,56'') = (None, False, 1, ustr ''1.23456'')"
proof -
  let ?t = "ustr ''1,234,56''"
  have s1: "strip ?t = ?t"
    by (rule strip_id) (simp_all add: ustr_def is_space_def)
  have all: "\<forall>x \<in> set ?t. x \<notin> set [0x24, 0x20AC, 0xA3, 0xA5, 0x20B9, 85, 69, 71, 74, 73]"
    by (simp add: ustr_def)
  have np: "(prefix [40] ?t \<and> suffix [41] ?t) = False"
    by (simp add: ustr_def)
  have mg: "magnitude_loop MAGNITUDE_MULTIPLIERS (upper ?t) ?t = (1, ?t)"
    by (simp add: MAGNITUDE_MULTIPLIERS_def ustr_def upper_def upper_cp_def suffix_to_prefix)
  have sep: "separators ?t = ustr ''1.23456''"
    by (simp add: separators_def rfind_def ustr_def py_replace.simps)
  show ?thesis
    by (rule clean_text_stages [OF s1 no_currency(1) [OF all] no_currency(2) [OF all] s1 np _
          mg sep]) simp
qed

lemma render_eight_digits: "render_decimal 123456 5 = ''1.23456''"
  by (simp add: render_decimal_def str_nat.simps digit_char_def)

lemma double_eight_digits: "double (real 123456 / 10 ^ 5) = Fin (694995494495815 / 2 ^ 49)"
  by (simp add: double_def fl_eval)

lemma float_eight_digits: "py_float (ustr ''1.23456'') = Inr (Fin (694995494495815 / 2 ^ 49))"
  using py_float_render [of 123456 5] unfolding render_eight_digits double_eight_digits .

lemma fmul_eight_digits:
  "fmul (Fin (694995494495815 / 2 ^ 49)) 1 = Fin (694995494495815 / 2 ^ 49)"
  by (simp add: double_def fl_eval)

lemma double_comma_reading: "double (123456 / 100) = Fin (2714826150374277 / 2 ^ 41)"
  by (simp add: double_def fl_eval)

lemma clean_not_a_number:
  "clean_text (ustr ''not a number'') = (None, False, 1, ustr ''not a number'')"
proof -
  let ?t = "ustr ''not a number''"
  have s1: "strip ?t = ?t"
    by (rule strip_id) (simp_all add: ustr_def is_space_def)
  have all: "\<forall>x \<in> set ?t. x \<notin> set [0x24, 0x20AC, 0xA3, 0xA5, 0x20B9, 85, 69, 71, 74, 73]"
    by (simp add: ustr_def)
  have np: "(prefix [40] ?t \<and> suffix [41] ?t) = False"
    by (simp add: ustr_def)
  have mg: "magnitude_loop MAGNITUDE_MULTIPLIERS (upper ?t) ?t = (1, ?t)"
    by (simp add: MAGNITUDE_MULTIPLIERS_def ustr_def upper_def upper_cp_def suffix_to_prefix)
  have sep: "separators ?t = ?t"
    by (rule separators_plain) (simp add: ustr_def)
  show ?thesis
    by (rule clean_text_stages [OF s1 no_currency(1) [OF all] no_currency(2) [OF all] s1 np _
          mg sep]) simp
qed

lemma float_not_a_number:
  "py_float (ustr ''not a number'') = Inl (ValueError ''could not convert string to float'')"
  by (simp add: py_float_def float_strip_def is_float_space_def read_number_def ustr_def
        lower_cp_def digit_of_low)

lemma parse_suffixed:
  assumes "(c, m) \<in> set [(75, 1000), (107, 1000), (77, 1000000), (109, 1000000),
           (66, 1000000000), (98, 1000000000), (84, 1000000000000), (116, 1000000000000 :: real)]"
  shows "parse_financial_number (PyStr (ustr (render_decimal k d) @ [c]))
     = Inr (Some (fmul (double (real k / 10 ^ d)) m), None)"
proof -
  let ?r = "ustr (render_decimal k d)"
  have ne: "?r @ [c] \<noteq> []" by simp
  have cl: "clean_text (?r @ [c]) = (None, False, m, ?r)"
    by (rule clean_text_suffixed [OF render_decimal_shape(1,2,3) assms])
  show ?thesis
    using parse_stages [OF ne cl py_float_render] by simp
qed

lemma render_four_one: "ustr ''4.1M'' = ustr (render_decimal 41 1) @ [77]"
  by (simp add: render_decimal_def str_nat.simps digit_char_def ustr_def)

lemma double_four_one: "double (real 41 / 10 ^ 1) = Fin (2308094809027379 / 2 ^ 49)"
  by (simp add: double_def fl_eval)

lemma fmul_four_one:
  "fmul (Fin (2308094809027379 / 2 ^ 49)) 1000000 = Fin (8804682956799999 / 2 ^ 31)"
  by (simp add: double_def fl_eval)

lemma double_four_million: "double (41 / 10 * 1000000) = Fin 4100000"
  by (simp add: double_def fl_eval)

lemma render_five_five: "render_decimal 55 1 @ [CHR ''M''] = ''5.5M''"
  by (simp add: render_decimal_def str_nat.simps digit_char_def)

lemma fl_five_five: "fl (real 55 / 10 ^ 1) = real 55 / 10 ^ 1"
  by (simp add: fl_eval)

lemma fl_five_million: "fl (real 55 / 10 ^ 1 * 1000000) = real 55 / 10 ^ 1 * 1000000"
  by (simp add: fl_eval)

subsection \<open>Claims on the parser\<close>

text \<open>
  Claim C4 says that with commas only, the comma followed by two digits is the decimal
  separator, so that \<^verbatim>\<open>1,234,56\<close> parses as 1234.56. The code decides on the last
  comma but turns the first comma into the period and deletes the others: the input
  parses as the float 1.23456 (the double \<open>694995494495815 / 2 ^ 49\<close>), which is not
  the float 1234.56.
\<close>

theorem first_comma_becomes_decimal_point:
  "parse_financial_number (PyStr (ustr ''1,234,56''))
     = Inr (Some (double (123456 / 100000)), None)
   \<and> double (123456 / 100000) = Fin (694995494495815 / 2 ^ 49)
   \<and> parse_financial_number (PyStr (ustr ''1,234,56''))
       \<noteq> Inr (Some (double (123456 / 100)), None)
   \<and> parse_financial_number (PyStr (ustr ''1,234,56''))
       \<noteq> Inr (Some (Fin (123456 / 100)), None)"
proof -
  have ne: "ustr ''1,234,56'' \<noteq> []" by (simp add: ustr_def)
  have p: "parse_financial_number (PyStr (ustr ''1,234,56''))
      = Inr (Some (Fin (694995494495815 / 2 ^ 49)), None)"
    using parse_stages [OF ne clean_eight_digits float_eight_digits]
    unfolding fmul_eight_digits by simp
  have d: "double (123456 / 100000) = Fin (694995494495815 / 2 ^ 49)"
    using double_eight_digits by simp
  have n1: "Fin (694995494495815 / 2 ^ 49) \<noteq> double (123456 / 100)"
    unfolding double_comma_reading by simp
  have n2: "Fin (694995494495815 / 2 ^ 49) \<noteq> Fin (123456 / 100)"
    by simp
  from p d n1 n2 show ?thesis by simp
qed

text \<open>
  Claim C6. \<open>parse_financial_number\<close> never raises: on every argument (no value, a
  string, any other object) it returns a pair. When \<open>float\<close> fails on the cleaned text
  the pair is \<open>(None, None)\<close>, and no returned pair has a currency without a value;
  in particular for no value, another object, the empty string and
  \<^verbatim>\<open>not a number\<close>.
\<close>

theorem parse_never_raises:
  "(\<exists>r. parse_financial_number arg = Inr r)
   \<and> (clean_text t0 = (cur, neg, m, t) \<and> py_float t = Inl e \<longrightarrow>
        parse_financial_number (PyStr t0) = Inr (None, None))
   \<and> (parse_financial_number arg = Inr (v, c) \<and> v = None \<longrightarrow> c = None)
   \<and> parse_financial_number PyNone = Inr (None, None)
   \<and> parse_financial_number PyOther = Inr (None, None)
   \<and> parse_financial_number (PyStr []) = Inr (None, None)
   \<and> parse_financial_number (PyStr (ustr ''not a number'')) = Inr (None, None)"
proof -
  have a: "\<exists>r. parse_financial_number arg = Inr r"
    using parse_result [of arg] by blast
  have b: "clean_text t0 = (cur, neg, m, t) \<and> py_float t = Inl e \<longrightarrow>
        parse_financial_number (PyStr t0) = Inr (None, None)"
    using parse_stages_fail by blast
  have c: "parse_financial_number arg = Inr (v, c) \<and> v = None \<longrightarrow> c = None"
    using parse_result [of arg] by auto
  have d: "parse_financial_number PyNone = Inr (None, None)"
    "parse_financial_number PyOther = Inr (None, None)"
    "parse_financial_number (PyStr []) = Inr (None, None)"
    by (simp_all add: parse_financial_number_def)
  have e: "parse_financial_number (PyStr (ustr ''not a number'')) = Inr (None, None)"
    by (rule parse_stages_fail [OF clean_not_a_number float_not_a_number])
  from a b c d e show ?thesis by blast
qed

theorem parse_never_raises_witness:
  "clean_text (ustr ''not a number'') = (None, False, 1, ustr ''not a number'')
   \<and> py_float (ustr ''not a number'') = Inl (ValueError ''could not convert string to float'')
   \<and> parse_financial_number (PyStr (ustr ''not a number'')) = Inr (None, None)
   \<and> (\<exists>r. parse_financial_number (PyStr (ustr ''not a number'')) = Inr r)"
  using clean_not_a_number float_not_a_number
    parse_never_raises [of "PyStr (ustr ''not a number'')" "ustr ''not a number''" None False 1
      "ustr ''not a number''" "ValueError ''could not convert string to float''" None None]
  by blast

text \<open>
  Claim C7 says that a number followed by K, M, B or T parses as the number times the
  multiplier. The code reads the number as a float and multiplies in float arithmetic,
  so both steps round: \<^verbatim>\<open>4.1M\<close> parses as \<open>8804682956799999 / 2 ^ 31\<close>
  (4099999.9999999995), which is neither 4.1 times a million nor the float nearest to
  it, 4100000.
\<close>

theorem suffix_product_is_rounded_counterexample:
  "parse_financial_number (PyStr (ustr ''4.1M''))
     = Inr (Some (Fin (8804682956799999 / 2 ^ 31)), None)
   \<and> parse_financial_number (PyStr (ustr ''4.1M''))
       \<noteq> Inr (Some (Fin (41 / 10 * 1000000)), None)
   \<and> parse_financial_number (PyStr (ustr ''4.1M''))
       \<noteq> Inr (Some (double (41 / 10 * 1000000)), None)"
proof -
  have m: "(77, 1000000) \<in> set [(75, 1000), (107, 1000), (77, 1000000), (109, 1000000),
           (66, 1000000000), (98, 1000000000), (84, 1000000000000), (116, 1000000000000 :: real)]"
    by simp
  have p: "parse_financial_number (PyStr (ustr ''4.1M''))
     = Inr (Some (Fin (8804682956799999 / 2 ^ 31)), None)"
    unfolding render_four_one parse_suffixed [OF m] double_four_one fmul_four_one ..
  have n1: "Fin (8804682956799999 / 2 ^ 31) \<noteq> Fin (41 / 10 * 1000000)"
    by simp
  have n2: "Fin (8804682956799999 / 2 ^ 31) \<noteq> double (41 / 10 * 1000000)"
    unfolding double_four_million by simp
  from p n1 n2 show ?thesis by simp
qed

text \<open>
  Claim C7, amended. For a number \<open>k / 10 ^ d\<close> in its decimal rendering (\<open>d\<close> decimals,
  or the integer rendering for \<open>d = 0\<close>) followed by one of the suffixes K, M, B, T in
  either case, the parser returns, with no currency, the float nearest to the number
  multiplied in float arithmetic by the multiplier of the suffix (a thousand, a
  million, \<open>10 ^ 9\<close>, \<open>10 ^ 12\<close>): the product rounded to the nearest double, an infinity
  when it is out of range. When the number and its product with the multiplier are
  both doubles in range, the result is the number times the multiplier.
\<close>

theorem magnitude_suffix_scales:
  "(s, m) \<in> set [(CHR ''K'', 1000), (CHR ''k'', 1000), (CHR ''M'', 1000000),
      (CHR ''m'', 1000000), (CHR ''B'', 1000000000), (CHR ''b'', 1000000000),
      (CHR ''T'', 1000000000000), (CHR ''t'', 1000000000000)] \<Longrightarrow>
   parse_financial_number (PyStr (ustr (render_decimal k d @ [s])))
     = Inr (Some (fmul (double (real k / 10 ^ d)) m), None)
   \<and> (fl (real k / 10 ^ d) = real k / 10 ^ d \<and> real k / 10 ^ d < 2 ^ 1024
        \<and> fl (real k / 10 ^ d * m) = real k / 10 ^ d * m \<and> real k / 10 ^ d * m < 2 ^ 1024 \<longrightarrow>
      parse_financial_number (PyStr (ustr (render_decimal k d @ [s])))
        = Inr (Some (Fin (real k / 10 ^ d * m)), None))"
proof -
  assume sm: "(s, m) \<in> set [(CHR ''K'', 1000), (CHR ''k'', 1000), (CHR ''M'', 1000000),
      (CHR ''m'', 1000000), (CHR ''B'', 1000000000), (CHR ''b'', 1000000000),
      (CHR ''T'', 1000000000000), (CHR ''t'', 1000000000000)]"
  from sm have cm: "(of_char s, m) \<in> set [(75, 1000), (107, 1000), (77, 1000000), (109, 1000000),
           (66, 1000000000), (98, 1000000000), (84, 1000000000000), (116, 1000000000000 :: real)]"
    by auto
  from sm have mp: "0 < m" by auto
  have t: "ustr (render_decimal k d @ [s]) = ustr (render_decimal k d) @ [of_char s]"
    by (simp add: ustr_def)
  have p: "parse_financial_number (PyStr (ustr (render_decimal k d @ [s])))
     = Inr (Some (fmul (double (real k / 10 ^ d)) m), None)"
    unfolding t by (rule parse_suffixed [OF cm])
  have x0: "0 \<le> real k / 10 ^ d" by simp
  have e: "fl (real k / 10 ^ d) = real k / 10 ^ d \<and> real k / 10 ^ d < 2 ^ 1024
        \<and> fl (real k / 10 ^ d * m) = real k / 10 ^ d * m \<and> real k / 10 ^ d * m < 2 ^ 1024 \<longrightarrow>
      fmul (double (real k / 10 ^ d)) m = Fin (real k / 10 ^ d * m)"
  proof (intro impI, elim conjE)
    assume a: "fl (real k / 10 ^ d) = real k / 10 ^ d" "real k / 10 ^ d < 2 ^ 1024"
      "fl (real k / 10 ^ d * m) = real k / 10 ^ d * m" "real k / 10 ^ d * m < 2 ^ 1024"
    from x0 a(2) have "\<bar>real k / 10 ^ d\<bar> < 2 ^ 1024" by simp
    from double_exact [OF a(1) this] have d1: "double (real k / 10 ^ d) = Fin (real k / 10 ^ d)" .
    from x0 mp have "0 \<le> real k / 10 ^ d * m" by simp
    with a(4) have "\<bar>real k / 10 ^ d * m\<bar> < 2 ^ 1024" by simp
    from double_exact [OF a(3) this] show "fmul (double (real k / 10 ^ d)) m = Fin (real k / 10 ^ d * m)"
      unfolding d1 by simp
  qed
  from p e show ?thesis by simp
qed

theorem magnitude_suffix_scales_witness:
  "render_decimal 55 1 @ [CHR ''M''] = ''5.5M''
   \<and> fl (real 55 / 10 ^ 1) = real 55 / 10 ^ 1
   \<and> fl (real 55 / 10 ^ 1 * 1000000) = real 55 / 10 ^ 1 * 1000000
   \<and> parse_financial_number (PyStr (ustr ''5.5M'')) = Inr (Some (Fin 5500000), None)"
proof -
  have m: "(CHR ''M'', 1000000 :: real) \<in> set [(CHR ''K'', 1000), (CHR ''k'', 1000),
      (CHR ''M'', 1000000), (CHR ''m'', 1000000), (CHR ''B'', 1000000000),
      (CHR ''b'', 1000000000), (CHR ''T'', 1000000000000), (CHR ''t'', 1000000000000)]"
    by simp
  have b: "real 55 / 10 ^ 1 < 2 ^ 1024" "real 55 / 10 ^ 1 * 1000000 < 2 ^ 1024"
    by simp_all
  have v: "real 55 / 10 ^ 1 * 1000000 = 5500000" by simp
  from magnitude_suffix_scales [OF m, of 55 1] fl_five_five fl_five_million b
  have "parse_financial_number (PyStr (ustr (render_decimal 55 1 @ [CHR ''M''])))
        = Inr (Some (Fin (real 55 / 10 ^ 1 * 1000000)), None)"
    by blast
  then have "parse_financial_number (PyStr (ustr ''5.5M'')) = Inr (Some (Fin 5500000), None)"
    unfolding render_five_five v .
  with render_five_five fl_five_five fl_five_million show ?thesis by blast
qed

end
